theory Spec2Isabelle
  imports Complex_Main
begin

section \<open>Python values\<close>

text \<open>
  The values that \<^verbatim>\<open>json.loads\<close> produces (and \<^verbatim>\<open>json.dumps\<close> consumes): \<open>JNull\<close> is
  Python's \<^verbatim>\<open>None\<close>, \<open>JObj\<close> is a \<^verbatim>\<open>dict\<close> with string keys, given by its items in
  insertion order (keys distinct, as a decoded object has them). Non-integral JSON numbers
  are left out: no function below computes with one.
\<close>

datatype json =
    JNull
  | JBool bool
  | JInt int
  | JStr string
  | JArr "json list"
  | JObj "(string \<times> json) list"

text \<open>
  Text that the library builds with \<^verbatim>\<open>str.format\<close>: a literal, a value standing where
  the text is that value itself, or a template with its arguments in order. The rendering
  of the arguments by \<^verbatim>\<open>str()\<close> is kept symbolic.
\<close>

datatype pytext =
    Lit string
  | Val json
  | Format string "pytext list"

text \<open>Truth value testing, \<^verbatim>\<open>bool(x)\<close>.\<close>

fun truthy :: "json \<Rightarrow> bool" where
  "truthy JNull = False"
| "truthy (JBool b) = b"
| "truthy (JInt n) = (n \<noteq> 0)"
| "truthy (JStr s) = (s \<noteq> [])"
| "truthy (JArr xs) = (xs \<noteq> [])"
| "truthy (JObj kvs) = (kvs \<noteq> [])"

text \<open>Lists and dicts cannot be dictionary keys.\<close>

fun hashable :: "json \<Rightarrow> bool" where
  "hashable (JArr xs) = False"
| "hashable (JObj kvs) = False"
| "hashable v = True"

definition has_key :: "(string \<times> json) list \<Rightarrow> string \<Rightarrow> bool" where
  "has_key kvs k = (k \<in> set (map fst kvs))"

text \<open>\<^verbatim>\<open>d.get(k)\<close> on a dict: \<^verbatim>\<open>None\<close> for a missing key.\<close>

definition dict_get :: "(string \<times> json) list \<Rightarrow> string \<Rightarrow> json" where
  "dict_get kvs k = (case map_of kvs k of None \<Rightarrow> JNull | Some v \<Rightarrow> v)"

section \<open>The exception classes\<close>

datatype error_kind =
    BillogramAPIError
  | ServiceMalfunctioningError
  | RequestFormError
  | PermissionDeniedError
  | InvalidAuthenticationError
  | NotAuthorizedError
  | RequestDataError
  | UnknownFieldError
  | MissingFieldError
  | InvalidFieldCombinationError
  | InvalidFieldValueError
  | ReadOnlyFieldError
  | InvalidObjectStateError
  | ObjectNotFoundError
  | ObjectNotAvailableYetError

text \<open>
  Each class followed by its base classes up to \<^verbatim>\<open>BillogramAPIError\<close>, as the
  \<^verbatim>\<open>class\<close> statements declare them.
\<close>

fun mro :: "error_kind \<Rightarrow> error_kind list" where
  "mro BillogramAPIError = [BillogramAPIError]"
| "mro ServiceMalfunctioningError = [ServiceMalfunctioningError, BillogramAPIError]"
| "mro RequestFormError = [RequestFormError, BillogramAPIError]"
| "mro PermissionDeniedError = [PermissionDeniedError, BillogramAPIError]"
| "mro InvalidAuthenticationError =
     [InvalidAuthenticationError, PermissionDeniedError, BillogramAPIError]"
| "mro NotAuthorizedError = [NotAuthorizedError, PermissionDeniedError, BillogramAPIError]"
| "mro RequestDataError = [RequestDataError, BillogramAPIError]"
| "mro UnknownFieldError = [UnknownFieldError, RequestDataError, BillogramAPIError]"
| "mro MissingFieldError = [MissingFieldError, RequestDataError, BillogramAPIError]"
| "mro InvalidFieldCombinationError =
     [InvalidFieldCombinationError, RequestDataError, BillogramAPIError]"
| "mro InvalidFieldValueError = [InvalidFieldValueError, RequestDataError, BillogramAPIError]"
| "mro ReadOnlyFieldError = [ReadOnlyFieldError, RequestDataError, BillogramAPIError]"
| "mro InvalidObjectStateError = [InvalidObjectStateError, RequestDataError, BillogramAPIError]"
| "mro ObjectNotFoundError = [ObjectNotFoundError, RequestDataError, BillogramAPIError]"
| "mro ObjectNotAvailableYetError =
     [ObjectNotAvailableYetError, ObjectNotFoundError, RequestDataError, BillogramAPIError]"

text \<open>\<^verbatim>\<open>except c:\<close> catches an error of class \<open>k\<close>.\<close>

definition caught_by :: "error_kind \<Rightarrow> error_kind \<Rightarrow> bool" where
  "caught_by k c = (c \<in> set (mro k))"

record api_error =
  kind :: error_kind
  message :: pytext
  field :: json
  field_path :: json
  extra_data :: "(string \<times> json) list option"

text \<open>
  Whatever a call can raise: an error of the library's own hierarchy, or one of Python's
  (\<open>TransportError\<close> stands for the exceptions of the HTTP stack).
\<close>

datatype py_exception =
    APIError api_error
  | AssertionError
  | TypeError
  | KeyError
  | AttributeError
  | ValueError
  | RecursionError
  | ZeroDivisionError
  | TransportError

text \<open>
  \<^verbatim>\<open>BillogramAPIError.__init__(self, message, **kwargs)\<close>: \<open>field\<close> and \<open>field_path\<close> are
  taken out of the keyword arguments, the rest is the extra data, \<^verbatim>\<open>None\<close> when empty.
\<close>

definition init_error :: "error_kind \<Rightarrow> pytext \<Rightarrow> (string \<times> json) list \<Rightarrow> api_error" where
  "init_error cls msg kwargs =
     (let rest = filter (\<lambda>kv. fst kv \<noteq> ''field'' \<and> fst kv \<noteq> ''field_path'') kwargs
      in \<lparr>kind = cls, message = msg,
          field = dict_get kwargs ''field'',
          field_path = dict_get kwargs ''field_path'',
          extra_data = (if rest = [] then None else Some rest)\<rparr>)"

text \<open>
  \<^verbatim>\<open>cls(**errordata)\<close>: the argument of \<^verbatim>\<open>**\<close> must be a mapping, \<^verbatim>\<open>message\<close> is a
  required parameter bound from the keywords, and a keyword named \<^verbatim>\<open>self\<close> collides
  with the instance parameter. Each failure is a \<^verbatim>\<open>TypeError\<close>.
\<close>

definition call_with_kwargs :: "error_kind \<Rightarrow> json \<Rightarrow> py_exception" where
  "call_with_kwargs cls errordata =
     (case errordata of
        JObj kw \<Rightarrow>
          if has_key kw ''self'' then TypeError
          else (case map_of kw ''message'' of
                  None \<Rightarrow> TypeError
                | Some m \<Rightarrow>
                    APIError (init_error cls (Val m) (filter (\<lambda>kv. fst kv \<noteq> ''message'') kw)))
      | _ \<Rightarrow> TypeError)"

section \<open>The response classifier\<close>

text \<open>
  What the classifier reads of a \<^verbatim>\<open>requests\<close> response: \<open>headers\<close> with lower-case names
  (a missing header raises \<^verbatim>\<open>KeyError\<close>), \<open>body_json\<close> for \<^verbatim>\<open>resp.json()\<close> (\<open>None\<close>
  when the body does not parse, a \<^verbatim>\<open>ValueError\<close>), and the raw \<open>content\<close>.
\<close>

record response =
  status_code :: int
  headers :: "string \<rightharpoonup> string"
  body_json :: "json option"
  content :: string

text \<open>\<^verbatim>\<open>resp.ok\<close>: no client or server error status.\<close>

definition ok :: "response \<Rightarrow> bool" where
  "ok resp = (\<not> (400 \<le> status_code resp \<and> status_code resp < 600))"

text \<open>\<^verbatim>\<open>x.get(k)\<close> on any value: only a dict has the method.\<close>

definition py_get :: "json \<Rightarrow> string \<Rightarrow> py_exception + json" where
  "py_get x k = (case x of JObj kvs \<Rightarrow> Inr (dict_get kvs k) | _ \<Rightarrow> Inl AttributeError)"

text \<open>\<^verbatim>\<open>x[k]\<close> with a string key on any value.\<close>

definition py_getitem :: "json \<Rightarrow> string \<Rightarrow> py_exception + json" where
  "py_getitem x k =
     (case x of
        JObj kvs \<Rightarrow> (case map_of kvs k of None \<Rightarrow> Inl KeyError | Some v \<Rightarrow> Inr v)
      | _ \<Rightarrow> Inl TypeError)"

datatype api_result = Content string | Decoded json

definition plain_error :: "error_kind \<Rightarrow> string \<Rightarrow> py_exception" where
  "plain_error cls msg = APIError (init_error cls (Lit msg) [])"

text \<open>The dictionary literal of the last statement, with its default.\<close>

definition status_table :: "(json \<times> error_kind) list" where
  "status_table =
     [(JStr ''MISSING_QUERY_PARAMETER'', RequestFormError),
      (JStr ''INVALID_QUERY_PARAMETER'', RequestFormError),
      (JStr ''INVALID_PARAMETER'', InvalidFieldValueError),
      (JStr ''INVALID_PARAMETER_COMBINATION'', InvalidFieldCombinationError),
      (JStr ''READ_ONLY_PARAMETER'', ReadOnlyFieldError),
      (JStr ''UNKNOWN_PARAMETER'', UnknownFieldError),
      (JStr ''INVALID_OBJECT_STATE'', InvalidObjectStateError)]"

definition table_get :: "json \<Rightarrow> py_exception + error_kind" where
  "table_get status =
     (if \<not> hashable status then Inl TypeError
      else (case map_of status_table status of
              None \<Rightarrow> Inr RequestDataError
            | Some cls \<Rightarrow> Inr cls))"

text \<open>Lines 205-219: a status code in \<^verbatim>\<open>range(500, 600)\<close>.\<close>

definition server_error :: "response \<Rightarrow> string \<Rightarrow> py_exception" where
  "server_error resp expect_content_type =
     (case headers resp ''content-type'' of
        None \<Rightarrow> KeyError
      | Some ct \<Rightarrow>
          if ct = expect_content_type \<and> expect_content_type = ''application/json'' then
            (case body_json resp of
               None \<Rightarrow> ValueError
             | Some data \<Rightarrow>
                 (case py_get data ''status'' of
                    Inl e \<Rightarrow> e
                  | Inr st \<Rightarrow>
                      (case py_get data ''data'' of
                         Inl e \<Rightarrow> e
                       | Inr d \<Rightarrow>
                           (case py_get d ''message'' of
                              Inl e \<Rightarrow> e
                            | Inr m \<Rightarrow>
                                APIError (init_error ServiceMalfunctioningError
                                  (Format ''Billogram API reported a server error: {} - {}''
                                     [Val st, Val m]) [])))))
          else plain_error ServiceMalfunctioningError ''Billogram API reported a server error'')"

text \<open>Lines 221-232: the content type is not the expected one.\<close>

definition unexpected_content_type :: "response \<Rightarrow> string \<Rightarrow> py_exception" where
  "unexpected_content_type resp ct =
     (let malfunction = plain_error ServiceMalfunctioningError
                          ''Billogram API returned unexpected content type''
      in if ct = ''application/json'' then
           (case body_json resp of
              None \<Rightarrow> ValueError
            | Some data \<Rightarrow>
                (case py_get data ''status'' of
                   Inl e \<Rightarrow> e
                 | Inr st \<Rightarrow>
                     if st = JStr ''NOT_AVAILABLE_YET''
                     then plain_error ObjectNotAvailableYetError ''Object not available yet''
                     else malfunction))
         else malfunction)"

text \<open>Lines 249-292: the envelope \<open>data\<close> has a true \<open>status\<close> and a \<open>data\<close> key.\<close>

definition classify_envelope ::
  "int \<Rightarrow> (string \<times> json) list \<Rightarrow> json \<Rightarrow> py_exception + api_result" where
  "classify_envelope code data status =
     (if code = 403 then
        (if status = JStr ''PERMISSION_DENIED'' then
           Inl (plain_error NotAuthorizedError ''Not allowed to perform the requested operation'')
         else if status = JStr ''INVALID_AUTH'' then
           Inl (plain_error InvalidAuthenticationError
                  (''The user/key combination is wrong, check the credentials '' @
                   ''                     used and possibly generate a new set''))
         else if status = JStr ''MISSING_AUTH'' then
           Inl (plain_error RequestFormError ''No authentication data was given'')
         else
           Inl (APIError (init_error PermissionDeniedError
                  (Format ''Permission denied, status={}'' [Val status]) [])))
      else if code = 404 then
        (if dict_get data ''status'' = JStr ''NOT_AVAILABLE_YET''
         then Inl (plain_error ObjectNotFoundError ''Object not available yet'')
         else Inl (plain_error ObjectNotFoundError ''Object not found''))
      else if code = 405 then
        Inl (plain_error RequestFormError ''Invalid HTTP method'')
      else if status = JStr ''OK'' then
        Inr (Decoded (JObj data))
      else
        (let errordata = dict_get data ''data''
         in case table_get status of
              Inl e \<Rightarrow> Inl e
            | Inr cls \<Rightarrow> Inl (call_with_kwargs cls errordata)))"

text \<open>\<^verbatim>\<open>BillogramAPI._check_api_response(resp, expect_content_type=None)\<close>.\<close>

definition check_api_response :: "response \<Rightarrow> string option \<Rightarrow> py_exception + api_result" where
  "check_api_response resp expect =
     (let expect_content_type =
            (case expect of
               None \<Rightarrow> ''application/json''
             | Some e \<Rightarrow> if \<not> ok resp then ''application/json'' else e)
      in if 500 \<le> status_code resp \<and> status_code resp < 600 then
           Inl (server_error resp expect_content_type)
         else
           (case headers resp ''content-type'' of
              None \<Rightarrow> Inl KeyError
            | Some ct \<Rightarrow>
                if ct \<noteq> expect_content_type then Inl (unexpected_content_type resp ct)
                else if expect_content_type = ''application/json'' then
                  (case body_json resp of
                     None \<Rightarrow> Inl ValueError
                   | Some data \<Rightarrow>
                       (case data of
                          JObj env \<Rightarrow>
                            (let status = dict_get env ''status''
                             in if \<not> truthy status then
                                  Inl (plain_error ServiceMalfunctioningError
                                         ''Response data missing status field'')
                                else if \<not> has_key env ''data'' then
                                  Inl (plain_error ServiceMalfunctioningError
                                         ''Response data missing data field'')
                                else classify_envelope (status_code resp) env status)
                        | _ \<Rightarrow> Inl AttributeError))
                else Inr (Content (content resp))))"

text \<open>A response declared and parsed as JSON, for the examples below.\<close>

definition json_response :: "int \<Rightarrow> json \<Rightarrow> response" where
  "json_response code body =
     \<lparr>status_code = code, headers = [''content-type'' \<mapsto> ''application/json''],
      body_json = Some body, content = []\<rparr>"

section \<open>Transport\<close>

datatype http_method = GET | POST | PUT | DELETE

text \<open>A value in the query string of a request.\<close>

datatype param = PInt int | PStr string

record request =
  http_method :: http_method
  url :: pytext
  auth :: "string \<times> string"
  params :: "(string \<rightharpoonup> param) option"
  request_headers :: "(string \<times> string) list"
  body :: "json option"

text \<open>
  The remote service: from its state and a request to a response (or an exception of the
  HTTP stack) and its next state. The world records the requests made, in order.
\<close>

type_synonym 's server = "'s \<Rightarrow> request \<Rightarrow> (py_exception + response) \<times> 's"

record 's world =
  server_state :: 's
  sent :: "request list"

definition perform :: "'s server \<Rightarrow> request \<Rightarrow> 's world \<Rightarrow> (py_exception + response) \<times> 's world" where
  "perform srv rq w =
     (case srv (server_state w) rq of
        (r, s') \<Rightarrow> (r, \<lparr>server_state = s', sent = sent w @ [rq]\<rparr>))"

text \<open>
  \<^verbatim>\<open>BillogramAPI\<close>: the credentials, user agent and base URL. The lazily created
  sub-resource attributes are not part of the model.
\<close>

record api =
  api_auth :: "string \<times> string"
  api_user_agent :: string
  api_base :: string

definition API_URL_BASE :: string where
  "API_URL_BASE = ''https://billogram.com/api/v2''"

definition USER_AGENT :: string where
  "USER_AGENT = ''Billogram API Python Library/1.00''"

definition BillogramAPI :: "string \<Rightarrow> string \<Rightarrow> string option \<Rightarrow> string option \<Rightarrow> api" where
  "BillogramAPI auth_user auth_key user_agent base =
     \<lparr>api_auth = (auth_user, auth_key),
      api_user_agent = (case user_agent of None \<Rightarrow> USER_AGENT
                        | Some u \<Rightarrow> if u = [] then USER_AGENT else u),
      api_base = (case base of None \<Rightarrow> API_URL_BASE
                  | Some b \<Rightarrow> if b = [] then API_URL_BASE else b)\<rparr>"

definition get_request :: "api \<Rightarrow> pytext \<Rightarrow> (string \<rightharpoonup> param) option \<Rightarrow> request" where
  "get_request a obj ps =
     \<lparr>http_method = GET, url = Format ''{}/{}'' [Lit (api_base a), obj], auth = api_auth a,
      params = ps, request_headers = [(''user-agent'', api_user_agent a)], body = None\<rparr>"

definition post_request :: "api \<Rightarrow> pytext \<Rightarrow> json \<Rightarrow> request" where
  "post_request a obj d =
     \<lparr>http_method = POST, url = Format ''{}/{}'' [Lit (api_base a), obj], auth = api_auth a,
      params = None,
      request_headers = [(''content-type'', ''application/json''),
                         (''user-agent'', api_user_agent a)],
      body = Some d\<rparr>"

definition put_request :: "api \<Rightarrow> pytext \<Rightarrow> json \<Rightarrow> request" where
  "put_request a obj d =
     \<lparr>http_method = PUT, url = Format ''{}/{}'' [Lit (api_base a), obj], auth = api_auth a,
      params = None,
      request_headers = [(''content-type'', ''application/json''),
                         (''user-agent'', api_user_agent a)],
      body = Some d\<rparr>"

definition delete_request :: "api \<Rightarrow> pytext \<Rightarrow> request" where
  "delete_request a obj =
     \<lparr>http_method = DELETE, url = Format ''{}/{}'' [Lit (api_base a), obj], auth = api_auth a,
      params = None, request_headers = [(''user-agent'', api_user_agent a)], body = None\<rparr>"

text \<open>Issue a request and classify its response.\<close>

definition call :: "'s server \<Rightarrow> request \<Rightarrow> string option \<Rightarrow> 's world \<Rightarrow>
    (py_exception + api_result) \<times> 's world" where
  "call srv rq expect w =
     (case perform srv rq w of
        (Inl e, w') \<Rightarrow> (Inl e, w')
      | (Inr resp, w') \<Rightarrow> (check_api_response resp expect, w'))"

definition api_get :: "'s server \<Rightarrow> api \<Rightarrow> pytext \<Rightarrow> (string \<rightharpoonup> param) option \<Rightarrow>
    string option \<Rightarrow> 's world \<Rightarrow> (py_exception + api_result) \<times> 's world" where
  "api_get srv a obj ps expect w = call srv (get_request a obj ps) expect w"

definition api_post :: "'s server \<Rightarrow> api \<Rightarrow> pytext \<Rightarrow> json \<Rightarrow> 's world \<Rightarrow>
    (py_exception + api_result) \<times> 's world" where
  "api_post srv a obj d w = call srv (post_request a obj d) None w"

definition api_put :: "'s server \<Rightarrow> api \<Rightarrow> pytext \<Rightarrow> json \<Rightarrow> 's world \<Rightarrow>
    (py_exception + api_result) \<times> 's world" where
  "api_put srv a obj d w = call srv (put_request a obj d) None w"

definition api_delete :: "'s server \<Rightarrow> api \<Rightarrow> pytext \<Rightarrow> 's world \<Rightarrow>
    (py_exception + api_result) \<times> 's world" where
  "api_delete srv a obj w = call srv (delete_request a obj) None w"

text \<open>\<^verbatim>\<open>resp[k]\<close> on what the classifier returned: raw content has no string keys.\<close>

definition result_getitem :: "api_result \<Rightarrow> string \<Rightarrow> py_exception + json" where
  "result_getitem r k = (case r of Content c \<Rightarrow> Inl TypeError | Decoded j \<Rightarrow> py_getitem j k)"

section \<open>Remote objects\<close>

text \<open>\<^verbatim>\<open>SimpleClass\<close> (and \<^verbatim>\<open>BillogramClass\<close>, which fixes the last two fields).\<close>

record simple_class =
  c_api :: api
  c_url_name :: string
  c_object_id_field :: string

definition BillogramClass :: "api \<Rightarrow> simple_class" where
  "BillogramClass a = \<lparr>c_api = a, c_url_name = ''billogram'', c_object_id_field = ''id''\<rparr>"

text \<open>
  The attribute \<^verbatim>\<open>_object_class\<close> is a URL name in a \<^verbatim>\<open>SingletonObject\<close> and the
  collection in a \<^verbatim>\<open>SimpleObject\<close> or \<^verbatim>\<open>BillogramObject\<close>; \<open>o_data\<close> is \<^verbatim>\<open>_data\<close>,
  \<open>JNull\<close> while the object is lazy.
\<close>

datatype object_class = UrlName string | Collection simple_class

record remote_object =
  o_api :: api
  o_object_class :: object_class
  o_data :: json

definition SingletonObject :: "api \<Rightarrow> string \<Rightarrow> remote_object" where
  "SingletonObject a url_name = \<lparr>o_api = a, o_object_class = UrlName url_name, o_data = JNull\<rparr>"

definition SimpleObject :: "api \<Rightarrow> simple_class \<Rightarrow> json \<Rightarrow> remote_object" where
  "SimpleObject a c d = \<lparr>o_api = a, o_object_class = Collection c, o_data = d\<rparr>"

text \<open>
  The property \<^verbatim>\<open>_url\<close>. For a collection member it is \<^verbatim>\<open>_url_of(self)\<close>, which reads
  \<^verbatim>\<open>self[id_field]\<close> through the \<^verbatim>\<open>data\<close> property; on a member without data that
  property calls \<^verbatim>\<open>refresh\<close>, which asks for \<^verbatim>\<open>_url\<close> again, until the interpreter
  gives up with a \<^verbatim>\<open>RecursionError\<close>.
\<close>

definition object_url :: "remote_object \<Rightarrow> py_exception + pytext" where
  "object_url ob =
     (case o_object_class ob of
        UrlName n \<Rightarrow> Inr (Lit n)
      | Collection c \<Rightarrow>
          if o_data ob = JNull then Inl RecursionError
          else (case py_getitem (o_data ob) (c_object_id_field c) of
                  Inl e \<Rightarrow> Inl e
                | Inr obj_id \<Rightarrow> Inr (Format ''{}/{}'' [Lit (c_url_name c), Val obj_id])))"

text \<open>
  A method that mutates its object returns the exception or the result together with
  the object and the world as the call leaves them.
\<close>

definition store_data :: "remote_object \<Rightarrow> (py_exception + api_result) \<times> 's world \<Rightarrow>
    (py_exception + unit) \<times> remote_object \<times> 's world" where
  "store_data ob r =
     (case r of
        (Inl e, w') \<Rightarrow> (Inl e, ob, w')
      | (Inr resp, w') \<Rightarrow>
          (case result_getitem resp ''data'' of
             Inl e \<Rightarrow> (Inl e, ob, w')
           | Inr d \<Rightarrow> (Inr (), ob\<lparr>o_data := d\<rparr>, w')))"

definition refresh :: "'s server \<Rightarrow> remote_object \<Rightarrow> 's world \<Rightarrow>
    (py_exception + unit) \<times> remote_object \<times> 's world" where
  "refresh srv ob w =
     (case object_url ob of
        Inl e \<Rightarrow> (Inl e, ob, w)
      | Inr u \<Rightarrow> store_data ob (api_get srv (o_api ob) u None None w))"

definition update :: "'s server \<Rightarrow> json \<Rightarrow> remote_object \<Rightarrow> 's world \<Rightarrow>
    (py_exception + unit) \<times> remote_object \<times> 's world" where
  "update srv d ob w =
     (case object_url ob of
        Inl e \<Rightarrow> (Inl e, ob, w)
      | Inr u \<Rightarrow> store_data ob (api_put srv (o_api ob) u d w))"

definition delete :: "'s server \<Rightarrow> remote_object \<Rightarrow> 's world \<Rightarrow> (py_exception + unit) \<times> 's world" where
  "delete srv ob w =
     (case object_url ob of
        Inl e \<Rightarrow> (Inl e, w)
      | Inr u \<Rightarrow>
          (case api_delete srv (o_api ob) u w of
             (Inl e, w') \<Rightarrow> (Inl e, w')
           | (Inr r, w') \<Rightarrow> (Inr (), w')))"

definition perform_event :: "'s server \<Rightarrow> string \<Rightarrow> json \<Rightarrow> remote_object \<Rightarrow> 's world \<Rightarrow>
    (py_exception + unit) \<times> remote_object \<times> 's world" where
  "perform_event srv evt_name evt_data ob w =
     (case object_url ob of
        Inl e \<Rightarrow> (Inl e, ob, w)
      | Inr u \<Rightarrow>
          store_data ob
            (api_post srv (o_api ob) (Format ''{}/command/{}'' [u, Lit evt_name]) evt_data w))"

definition send :: "'s server \<Rightarrow> string \<Rightarrow> remote_object \<Rightarrow> 's world \<Rightarrow>
    (py_exception + unit) \<times> remote_object \<times> 's world" where
  "send srv method ob w =
     (if method \<notin> {''Email'', ''Letter'', ''Email+Letter''} then (Inl AssertionError, ob, w)
      else perform_event srv ''send'' (JObj [(''method'', JStr method)]) ob w)"

text \<open>\<^verbatim>\<open>SimpleClass.create\<close>.\<close>

definition create :: "'s server \<Rightarrow> simple_class \<Rightarrow> json \<Rightarrow> 's world \<Rightarrow>
    (py_exception + remote_object) \<times> 's world" where
  "create srv c d w =
     (case api_post srv (c_api c) (Lit (c_url_name c)) d w of
        (Inl e, w') \<Rightarrow> (Inl e, w')
      | (Inr resp, w') \<Rightarrow>
          (case result_getitem resp ''data'' of
             Inl e \<Rightarrow> (Inl e, w')
           | Inr r \<Rightarrow> (Inr (SimpleObject (c_api c) c r), w')))"

text \<open>
  \<^verbatim>\<open>BillogramClass.create_and_send\<close>: every exception of the model is an \<^verbatim>\<open>Exception\<close>,
  so the handler catches whatever \<^verbatim>\<open>send\<close> raises; an exception of \<^verbatim>\<open>delete\<close> inside
  the handler leaves it in place of the caught one.
\<close>

definition create_and_send :: "'s server \<Rightarrow> simple_class \<Rightarrow> json \<Rightarrow> string \<Rightarrow> 's world \<Rightarrow>
    (py_exception + remote_object) \<times> 's world" where
  "create_and_send srv c d method w =
     (if method \<notin> {''Email'', ''Letter'', ''Email+Letter''} then (Inl AssertionError, w)
      else (case create srv c d w of
              (Inl e, w1) \<Rightarrow> (Inl e, w1)
            | (Inr billogram, w1) \<Rightarrow>
                (case send srv method billogram w1 of
                   (Inr u, billogram', w2) \<Rightarrow> (Inr billogram', w2)
                 | (Inl e, billogram', w2) \<Rightarrow>
                     (case delete srv billogram' w2 of
                        (Inl e', w3) \<Rightarrow> (Inl e', w3)
                      | (Inr u, w3) \<Rightarrow> (Inl e, w3)))))"

section \<open>Queries\<close>

text \<open>
  \<^verbatim>\<open>Query\<close>. A filter or order specification is a dictionary from parameter names to
  strings, as the \<^verbatim>\<open>filter_*\<close> helpers build them; \<open>q_count_cached\<close> is \<open>JNull\<close> while
  no count is cached.
\<close>

record query =
  q_type_class :: simple_class
  q_filter :: "string \<rightharpoonup> string"
  q_count_cached :: json
  q_page_size :: int
  q_order :: "string \<rightharpoonup> string"

definition Query :: "simple_class \<Rightarrow> query" where
  "Query cls =
     \<lparr>q_type_class = cls, q_filter = Map.empty, q_count_cached = JNull,
      q_page_size = 100, q_order = Map.empty\<rparr>"

definition get_queryargs :: "query \<Rightarrow> (string \<rightharpoonup> param)" where
  "get_queryargs q = (\<lambda>k. map_option PStr ((q_filter q ++ q_order q) k))"

text \<open>The arguments of the request of \<^verbatim>\<open>_make_query(page_number, page_size)\<close>.\<close>

definition query_args :: "query \<Rightarrow> int \<Rightarrow> int option \<Rightarrow> (string \<rightharpoonup> param)" where
  "query_args q page_number page_size =
     [''page_size'' \<mapsto> PInt (case page_size of
                                 None \<Rightarrow> q_page_size q
                               | Some n \<Rightarrow> if n = 0 then q_page_size q else n),
      ''page'' \<mapsto> PInt page_number] ++ get_queryargs q"

definition make_query :: "'s server \<Rightarrow> int \<Rightarrow> int option \<Rightarrow> query \<Rightarrow> 's world \<Rightarrow>
    (py_exception + api_result) \<times> query \<times> 's world" where
  "make_query srv page_number page_size q w =
     (case api_get srv (c_api (q_type_class q)) (Lit (c_url_name (q_type_class q)))
             (Some (query_args q page_number page_size)) None w of
        (Inl e, w') \<Rightarrow> (Inl e, q, w')
      | (Inr resp, w') \<Rightarrow>
          (case result_getitem resp ''meta'' of
             Inl e \<Rightarrow> (Inl e, q, w')
           | Inr meta \<Rightarrow>
               (case py_getitem meta ''total_count'' of
                  Inl e \<Rightarrow> (Inl e, q, w')
                | Inr n \<Rightarrow> (Inr resp, q\<lparr>q_count_cached := n\<rparr>, w'))))"

text \<open>The property \<^verbatim>\<open>count\<close>.\<close>

definition count :: "'s server \<Rightarrow> query \<Rightarrow> 's world \<Rightarrow> (py_exception + json) \<times> query \<times> 's world" where
  "count srv q w =
     (if q_count_cached q = JNull then
        (case make_query srv 1 (Some 1) q w of
           (Inl e, q', w') \<Rightarrow> (Inl e, q', w')
         | (Inr resp, q', w') \<Rightarrow> (Inr (q_count_cached q'), q', w'))
      else (Inr (q_count_cached q), q, w))"

text \<open>A value as an operand of integer arithmetic: \<^verbatim>\<open>bool\<close> is a subclass of \<^verbatim>\<open>int\<close>.\<close>

definition py_int :: "json \<Rightarrow> py_exception + int" where
  "py_int v =
     (case v of
        JInt n \<Rightarrow> Inr n
      | JBool b \<Rightarrow> Inr (if b then 1 else 0)
      | _ \<Rightarrow> Inl TypeError)"

text \<open>The property \<^verbatim>\<open>total_pages\<close>; \<^verbatim>\<open>//\<close> is floor division, as \<open>div\<close> on \<open>int\<close> is.\<close>

definition total_pages :: "'s server \<Rightarrow> query \<Rightarrow> 's world \<Rightarrow> (py_exception + int) \<times> query \<times> 's world" where
  "total_pages srv q w =
     (case count srv q w of
        (Inl e, q', w') \<Rightarrow> (Inl e, q', w')
      | (Inr c, q', w') \<Rightarrow>
          (case py_int c of
             Inl e \<Rightarrow> (Inl e, q', w')
           | Inr n \<Rightarrow>
               if q_page_size q' = 0 then (Inl ZeroDivisionError, q', w')
               else (Inr ((n + q_page_size q' - 1) div q_page_size q'), q', w')))"

text \<open>The setters. A failed assertion leaves the query as it was.\<close>

definition set_page_size :: "int \<Rightarrow> query \<Rightarrow> py_exception + query" where
  "set_page_size v q = (if v \<ge> 1 then Inr (q\<lparr>q_page_size := v\<rparr>) else Inl AssertionError)"

definition set_filter :: "(string \<rightharpoonup> string) \<Rightarrow> query \<Rightarrow> py_exception + query" where
  "set_filter v q =
     (if v = q_filter q then Inr q
      else if v \<noteq> Map.empty then
        (if v ''filter_type'' = None \<or> v ''filter_field'' = None \<or> v ''filter_value'' = None
           then Inl AssertionError
         else if v ''filter_type'' \<notin> {Some ''field'', Some ''field-prefix'',
                                         Some ''field-search'', Some ''special''}
           then Inl AssertionError
         else Inr (q\<lparr>q_filter := v, q_count_cached := JNull\<rparr>))
      else Inr (q\<lparr>q_filter := Map.empty, q_count_cached := JNull\<rparr>))"

definition set_order :: "(string \<rightharpoonup> string) \<Rightarrow> query \<Rightarrow> py_exception + query" where
  "set_order v q =
     (if v \<noteq> Map.empty then
        (if v ''order_field'' = None \<or> v ''order_direction'' = None then Inl AssertionError
         else if v ''order_direction'' \<notin> {Some ''asc'', Some ''desc''} then Inl AssertionError
         else Inr (q\<lparr>q_order := v\<rparr>))
      else Inr (q\<lparr>q_order := Map.empty\<rparr>))"

definition make_filter :: "string option \<Rightarrow> string option \<Rightarrow> string option \<Rightarrow> query \<Rightarrow>
    py_exception + query" where
  "make_filter filter_type filter_field filter_value q =
     (case (filter_type, filter_field, filter_value) of
        (Some t, Some f, Some v) \<Rightarrow>
          set_filter [''filter_type'' \<mapsto> t, ''filter_field'' \<mapsto> f, ''filter_value'' \<mapsto> v] q
      | _ \<Rightarrow> set_filter Map.empty q)"

text \<open>\<^verbatim>\<open>for o in x\<close>: a list gives its elements, a dict its keys, a string its characters.\<close>

definition py_iter :: "json \<Rightarrow> py_exception + json list" where
  "py_iter x =
     (case x of
        JArr xs \<Rightarrow> Inr xs
      | JObj kvs \<Rightarrow> Inr (map (\<lambda>kv. JStr (fst kv)) kvs)
      | JStr s \<Rightarrow> Inr (map (\<lambda>c. JStr [c]) s)
      | _ \<Rightarrow> Inl TypeError)"

definition get_page :: "'s server \<Rightarrow> int \<Rightarrow> query \<Rightarrow> 's world \<Rightarrow>
    (py_exception + remote_object list) \<times> query \<times> 's world" where
  "get_page srv page_number q w =
     (case make_query srv page_number None q w of
        (Inl e, q', w') \<Rightarrow> (Inl e, q', w')
      | (Inr resp, q', w') \<Rightarrow>
          (case result_getitem resp ''data'' of
             Inl e \<Rightarrow> (Inl e, q', w')
           | Inr d \<Rightarrow>
               (case py_iter d of
                  Inl e \<Rightarrow> (Inl e, q', w')
                | Inr os \<Rightarrow>
                    (Inr (map (SimpleObject (c_api (q_type_class q')) (q_type_class q')) os),
                     q', w'))))"

section \<open>Iterating over a query\<close>

text \<open>
  Query objects are mutable, \<^verbatim>\<open>iter_all\<close> works on a \<^verbatim>\<open>copy.copy\<close> of its query, and
  the \<^verbatim>\<open>filter\<close> and \<^verbatim>\<open>order\<close> properties hand out the very dictionaries bound to
  \<^verbatim>\<open>_filter\<close> and \<^verbatim>\<open>_order\<close>. So both kinds of object live in a store: \<open>heap\<close> gives
  the attributes of the query object at an address, where \<open>r_filter\<close> and \<open>r_order\<close> are
  the addresses of the dictionaries bound to \<^verbatim>\<open>_filter\<close> and \<^verbatim>\<open>_order\<close>; \<open>dicts\<close> gives
  the contents of the dictionary at an address; \<open>next_addr\<close> and \<open>next_dict\<close> are the
  first addresses not yet in use.
\<close>

record query_object =
  r_type_class :: simple_class
  r_filter :: nat
  r_count_cached :: json
  r_page_size :: int
  r_order :: nat

record 's state =
  heap :: "nat \<Rightarrow> query_object"
  dicts :: "nat \<Rightarrow> (string \<rightharpoonup> string)"
  next_addr :: nat
  next_dict :: nat
  world :: "'s world"

text \<open>The query at an address as its methods read it, the dictionaries looked up.\<close>

definition load :: "'s state \<Rightarrow> nat \<Rightarrow> query" where
  "load st a =
     \<lparr>q_type_class = r_type_class (heap st a),
      q_filter = dicts st (r_filter (heap st a)),
      q_count_cached = r_count_cached (heap st a),
      q_page_size = r_page_size (heap st a),
      q_order = dicts st (r_order (heap st a))\<rparr>"

text \<open>
  \<^verbatim>\<open>Query.__init__\<close> in the store: a new query object with two new, empty dictionaries.
\<close>

definition new_query :: "simple_class \<Rightarrow> 's state \<Rightarrow> nat \<times> 's state" where
  "new_query cls st =
     (next_addr st,
      st\<lparr>heap := (heap st)(next_addr st :=
              \<lparr>r_type_class = cls, r_filter = next_dict st, r_count_cached = JNull,
               r_page_size = 100, r_order = Suc (next_dict st)\<rparr>),
         dicts := (dicts st)(next_dict st := Map.empty, Suc (next_dict st) := Map.empty),
         next_addr := Suc (next_addr st),
         next_dict := Suc (Suc (next_dict st))\<rparr>)"

text \<open>
  Run one of \<^verbatim>\<open>count\<close>, \<^verbatim>\<open>total_pages\<close> and \<^verbatim>\<open>get_page\<close> on the query at an address.
  These methods assign no attribute but \<^verbatim>\<open>_count_cached\<close> (through \<^verbatim>\<open>_make_query\<close>),
  which is what is written back.
\<close>

definition on_query :: "nat \<Rightarrow> (query \<Rightarrow> 's world \<Rightarrow> (py_exception + 'a) \<times> query \<times> 's world) \<Rightarrow>
    's state \<Rightarrow> (py_exception + 'a) \<times> 's state" where
  "on_query a f st =
     (case f (load st a) (world st) of
        (r, q', w') \<Rightarrow>
          (r, st\<lparr>heap := (heap st)(a := (heap st a)\<lparr>r_count_cached := q_count_cached q'\<rparr>),
                 world := w'\<rparr>))"

text \<open>
  \<^verbatim>\<open>copy.copy(self)\<close> is a shallow copy: a new query object whose attributes are bound to
  the same values, the same two dictionaries among them.
\<close>

definition copy_query :: "nat \<Rightarrow> 's state \<Rightarrow> nat \<times> 's state" where
  "copy_query a st =
     (next_addr st,
      st\<lparr>heap := (heap st)(next_addr st := heap st a), next_addr := Suc (next_addr st)\<rparr>)"

text \<open>
  The generator that \<^verbatim>\<open>iter_all()\<close> returns: created for the query at an address and not
  yet started; suspended at the \<^verbatim>\<open>yield\<close>, with the copy's address, the page numbers
  still to fetch and the rest of the current page; or finished.
\<close>

datatype generator =
    Created nat
  | Suspended nat "int list" "remote_object list"
  | Finished

datatype gen_step = Yield remote_object | StopIteration | Raise py_exception

text \<open>The outer loop from the top of an iteration: fetch pages until one has an object.\<close>

fun fetch :: "'s server \<Rightarrow> nat \<Rightarrow> int list \<Rightarrow> 's state \<Rightarrow> gen_step \<times> generator \<times> 's state" where
  "fetch srv qry [] st = (StopIteration, Finished, st)"
| "fetch srv qry (page_number # rest) st =
     (case on_query qry (get_page srv page_number) st of
        (Inl e, st') \<Rightarrow> (Raise e, Finished, st')
      | (Inr [], st') \<Rightarrow> fetch srv qry rest st'
      | (Inr (ob # page), st') \<Rightarrow> (Yield ob, Suspended qry rest page, st'))"

text \<open>\<^verbatim>\<open>next(g)\<close>; \<^verbatim>\<open>range(1, n + 1)\<close> is \<open>[1..n]\<close>.\<close>

definition gen_next :: "'s server \<Rightarrow> generator \<Rightarrow> 's state \<Rightarrow> gen_step \<times> generator \<times> 's state" where
  "gen_next srv g st =
     (case g of
        Finished \<Rightarrow> (StopIteration, Finished, st)
      | Suspended qry rest (ob # page) \<Rightarrow> (Yield ob, Suspended qry rest page, st)
      | Suspended qry rest [] \<Rightarrow> fetch srv qry rest st
      | Created self \<Rightarrow>
          (case copy_query self st of
             (qry, st1) \<Rightarrow>
               (case on_query qry (total_pages srv) st1 of
                  (Inl e, st2) \<Rightarrow> (Raise e, Finished, st2)
                | (Inr n, st2) \<Rightarrow> fetch srv qry [1..n] st2)))"

text \<open>
  The setters on the query at an address. A failed assertion assigns nothing, nor does the
  filter setter when it returns at its first test; otherwise \<^verbatim>\<open>_filter\<close> or \<^verbatim>\<open>_order\<close>
  is bound to a new dictionary (\<^verbatim>\<open>dict(value)\<close> or \<^verbatim>\<open>{}\<close>), and the dictionary bound
  before is left as it is.
\<close>

definition assign_filter :: "nat \<Rightarrow> (string \<rightharpoonup> string) \<Rightarrow> 's state \<Rightarrow> 's state" where
  "assign_filter a v st =
     (case set_filter v (load st a) of
        Inl e \<Rightarrow> st
      | Inr q' \<Rightarrow>
          if v = q_filter (load st a) then st
          else st\<lparr>heap := (heap st)(a := (heap st a)\<lparr>r_filter := next_dict st,
                                                     r_count_cached := q_count_cached q'\<rparr>),
                  dicts := (dicts st)(next_dict st := q_filter q'),
                  next_dict := Suc (next_dict st)\<rparr>)"

definition assign_order :: "nat \<Rightarrow> (string \<rightharpoonup> string) \<Rightarrow> 's state \<Rightarrow> 's state" where
  "assign_order a v st =
     (case set_order v (load st a) of
        Inl e \<Rightarrow> st
      | Inr q' \<Rightarrow>
          st\<lparr>heap := (heap st)(a := (heap st a)\<lparr>r_order := next_dict st\<rparr>),
             dicts := (dicts st)(next_dict st := q_order q'),
             next_dict := Suc (next_dict st)\<rparr>)"

definition assign_page_size :: "nat \<Rightarrow> int \<Rightarrow> 's state \<Rightarrow> 's state" where
  "assign_page_size a n st =
     (case set_page_size n (load st a) of
        Inl e \<Rightarrow> st
      | Inr q' \<Rightarrow> st\<lparr>heap := (heap st)(a := (heap st a)\<lparr>r_page_size := q_page_size q'\<rparr>)\<rparr>)"

text \<open>
  What a caller can do to the original query between two steps of the iteration: assign
  to \<^verbatim>\<open>filter\<close>, \<^verbatim>\<open>order\<close> or \<^verbatim>\<open>page_size\<close>, call \<^verbatim>\<open>make_filter\<close>, or change the
  dictionary that \<^verbatim>\<open>q.filter\<close> or \<^verbatim>\<open>q.order\<close> returns in place, as in
  \<^verbatim>\<open>q.filter[k] = v\<close>.
\<close>

datatype mutation =
    SetFilter "string \<rightharpoonup> string"
  | SetOrder "string \<rightharpoonup> string"
  | SetPageSize int
  | MakeFilter "string option" "string option" "string option"
  | FilterSetItem string string
  | OrderSetItem string string

fun apply_mutation :: "nat \<Rightarrow> mutation \<Rightarrow> 's state \<Rightarrow> 's state" where
  "apply_mutation a (SetFilter v) st = assign_filter a v st"
| "apply_mutation a (SetOrder v) st = assign_order a v st"
| "apply_mutation a (SetPageSize n) st = assign_page_size a n st"
| "apply_mutation a (MakeFilter filter_type filter_field filter_value) st =
     (case (filter_type, filter_field, filter_value) of
        (Some t, Some f, Some v) \<Rightarrow>
          assign_filter a [''filter_type'' \<mapsto> t, ''filter_field'' \<mapsto> f, ''filter_value'' \<mapsto> v] st
      | _ \<Rightarrow> assign_filter a Map.empty st)"
| "apply_mutation a (FilterSetItem k v) st =
     st\<lparr>dicts := (dicts st)(r_filter (heap st a) := (dicts st (r_filter (heap st a)))(k \<mapsto> v))\<rparr>"
| "apply_mutation a (OrderSetItem k v) st =
     st\<lparr>dicts := (dicts st)(r_order (heap st a) := (dicts st (r_order (heap st a)))(k \<mapsto> v))\<rparr>"

text \<open>The mutations that go through a setter.\<close>

fun rebinds :: "mutation \<Rightarrow> bool" where
  "rebinds (FilterSetItem k v) = False"
| "rebinds (OrderSetItem k v) = False"
| "rebinds m = True"

datatype event = Next | Mutate mutation

fun by_setter :: "event \<Rightarrow> bool" where
  "by_setter Next = True"
| "by_setter (Mutate m) = rebinds m"

text \<open>
  The results of the \<^verbatim>\<open>next\<close> calls in a sequence of events, the mutations acting on the
  query at address \<open>a\<close>.
\<close>

fun run :: "'s server \<Rightarrow> nat \<Rightarrow> event list \<Rightarrow> generator \<Rightarrow> 's state \<Rightarrow> gen_step list" where
  "run srv a [] g st = []"
| "run srv a (Next # es) g st =
     (case gen_next srv g st of (r, g', st') \<Rightarrow> r # run srv a es g' st')"
| "run srv a (Mutate m # es) g st = run srv a es g (apply_mutation a m st)"

section \<open>Invariants and relations used in the proofs\<close>

text \<open>
  The filter of a query is empty or a complete specification: what the two assertions of
  the filter setter let through.
\<close>

definition well_formed_filter :: "(string \<rightharpoonup> string) \<Rightarrow> bool" where
  "well_formed_filter f =
     (f = Map.empty \<or>
      (f ''filter_type'' \<in> {Some ''field'', Some ''field-prefix'', Some ''field-search'',
                             Some ''special''}
       \<and> f ''filter_field'' \<noteq> None \<and> f ''filter_value'' \<noteq> None))"

text \<open>
  Two states agree on a query when they hold the same attributes for it, the same contents
  in its two dictionaries and the same world. Two runs of a generator are in step when the
  generator is finished, or is suspended on a copy other than the original query, the
  states agree on that copy, and the copy's dictionaries are allocated in the first state.
\<close>

definition agree :: "nat \<Rightarrow> 's state \<Rightarrow> 's state \<Rightarrow> bool" where
  "agree qry s t =
     (heap s qry = heap t qry
      \<and> dicts s (r_filter (heap s qry)) = dicts t (r_filter (heap s qry))
      \<and> dicts s (r_order (heap s qry)) = dicts t (r_order (heap s qry))
      \<and> world s = world t)"

definition in_step :: "nat \<Rightarrow> generator \<Rightarrow> 's state \<Rightarrow> 's state \<Rightarrow> bool" where
  "in_step a g s t =
     (case g of
        Created x \<Rightarrow> False
      | Suspended qry rest page \<Rightarrow>
          qry \<noteq> a \<and> agree qry s t
          \<and> r_filter (heap s qry) < next_dict s \<and> r_order (heap s qry) < next_dict s
      | Finished \<Rightarrow> True)"

text \<open>
  The response is one that the classifier passes on as a success with the data \<open>d\<close>: it
  is declared and parsed as JSON, its status code is none of those handled by code alone,
  and its envelope has the status \<^verbatim>\<open>"OK"\<close> and the data entry \<open>d\<close>.
\<close>

definition ok_envelope :: "response \<Rightarrow> json \<Rightarrow> bool" where
  "ok_envelope resp d =
     (headers resp ''content-type'' = Some ''application/json''
      \<and> \<not> (500 \<le> status_code resp \<and> status_code resp \<le> 599)
      \<and> status_code resp \<noteq> 403 \<and> status_code resp \<noteq> 404 \<and> status_code resp \<noteq> 405
      \<and> (case body_json resp of
           Some (JObj env) \<Rightarrow>
             map_of env ''status'' = Some (JStr ''OK'') \<and> map_of env ''data'' = Some d
         | _ \<Rightarrow> False))"

section \<open>Example servers\<close>

text \<open>Concrete connections, servers and responses on which the properties below are run.\<close>

definition demo_api :: api where
  "demo_api = BillogramAPI ''user'' ''key'' None None"

definition customers :: simple_class where
  "customers = \<lparr>c_api = demo_api, c_url_name = ''customer'', c_object_id_field = ''customer_no''\<rparr>"

text \<open>A server that answers every request with the same response, and a world before any request.\<close>

definition always :: "response \<Rightarrow> unit server" where
  "always resp = (\<lambda>s rq. (Inr resp, s))"

definition idle :: "unit world" where
  "idle = \<lparr>server_state = (), sent = []\<rparr>"

text \<open>
  A server that answers its \<open>n\<close>-th request with the \<open>n\<close>-th response of a script, and
  with a default response once the script has run out.
\<close>

definition scripted :: "response list \<Rightarrow> response \<Rightarrow> nat server" where
  "scripted rs dflt = (\<lambda>n rq. (Inr (if n < length rs then rs ! n else dflt), Suc n))"

definition created_ok :: response where
  "created_ok = json_response 200
     (JObj [(''status'', JStr ''OK''), (''data'', JObj [(''id'', JStr ''b1'')])])"

definition send_refused :: response where
  "send_refused = json_response 400
     (JObj [(''status'', JStr ''INVALID_OBJECT_STATE''),
            (''data'', JObj [(''message'', JStr ''already sent'')])])"

definition deleted_ok :: response where
  "deleted_ok = json_response 200 (JObj [(''status'', JStr ''OK''), (''data'', JObj [])])"

definition broken :: response where
  "broken = \<lparr>status_code = 500, headers = [''content-type'' \<mapsto> ''text/html''],
             body_json = None, content = ''Internal Server Error''\<rparr>"

text \<open>A collection page of two customers that reports 37 objects in all.\<close>

definition page37 :: response where
  "page37 = json_response 200
     (JObj [(''status'', JStr ''OK''),
            (''data'', JArr [JObj [(''customer_no'', JInt 1)], JObj [(''customer_no'', JInt 2)]]),
            (''meta'', JObj [(''total_count'', JInt 37)])])"

text \<open>
  A server that answers every request with a page of one customer, which records the
  \<^verbatim>\<open>filter_value\<close> and \<^verbatim>\<open>page_size\<close> parameters of the request, and reports 2 objects
  in all.
\<close>

definition echo :: "unit server" where
  "echo =
     (\<lambda>s rq.
        (Inr (json_response 200
                (JObj [(''status'', JStr ''OK''),
                       (''data'',
                        JArr [JObj [(''customer_no'', JInt 1),
                                    (''filter_value'',
                                     case params rq of
                                       None \<Rightarrow> JNull
                                     | Some ps \<Rightarrow>
                                         (case ps ''filter_value'' of
                                            Some (PStr v) \<Rightarrow> JStr v
                                          | _ \<Rightarrow> JNull)),
                                    (''page_size'',
                                     case params rq of
                                       None \<Rightarrow> JNull
                                     | Some ps \<Rightarrow>
                                         (case ps ''page_size'' of
                                            Some (PInt n) \<Rightarrow> JInt n
                                          | _ \<Rightarrow> JNull))]]),
                       (''meta'', JObj [(''total_count'', JInt 2)])])),
         s))"

text \<open>
  A store without objects, and the store after \<^verbatim>\<open>q = customers.query()\<close>,
  \<^verbatim>\<open>q.page_size = 1\<close> and \<^verbatim>\<open>q.filter_field('name', 'A')\<close>, with the query at address 0.
\<close>

definition no_objects :: "unit state" where
  "no_objects =
     \<lparr>heap = (\<lambda>a. \<lparr>r_type_class = \<lparr>c_api = demo_api, c_url_name = [], c_object_id_field = []\<rparr>,
                    r_filter = 0, r_count_cached = JNull, r_page_size = 0, r_order = 0\<rparr>),
      dicts = (\<lambda>a. Map.empty), next_addr = 0, next_dict = 0, world = idle\<rparr>"

definition one_query :: "unit state" where
  "one_query =
     apply_mutation 0 (MakeFilter (Some ''field'') (Some ''name'') (Some ''A''))
       (apply_mutation 0 (SetPageSize 1) (snd (new_query customers no_objects)))"

definition seen :: "string \<Rightarrow> int \<Rightarrow> remote_object" where
  "seen v n =
     SimpleObject demo_api customers
       (JObj [(''customer_no'', JInt 1), (''filter_value'', JStr v), (''page_size'', JInt n)])"

section \<open>Properties of the response classifier\<close>

lemma has_key_map_of: "has_key kvs k \<longleftrightarrow> map_of kvs k \<noteq> None"
  by (simp add: has_key_def map_of_eq_None_iff)

text \<open>
  Past the envelope checks, with a status code outside 5xx, 403, 404 and 405 and a status
  other than \<^verbatim>\<open>"OK"\<close>, the classifier is the last statement: the table lookup, then the
  constructor call on the envelope's data.
\<close>

lemma table_branch:
  assumes "headers resp ''content-type'' = Some ''application/json''"
    and "expect = None \<or> \<not> ok resp \<or> expect = Some ''application/json''"
    and "body_json resp = Some (JObj env)"
    and "truthy (dict_get env ''status'')"
    and "has_key env ''data''"
    and "\<not> (500 \<le> status_code resp \<and> status_code resp \<le> 599)"
    and "status_code resp \<noteq> 403" "status_code resp \<noteq> 404" "status_code resp \<noteq> 405"
    and "dict_get env ''status'' \<noteq> JStr ''OK''"
  shows "check_api_response resp expect =
           (case table_get (dict_get env ''status'') of
              Inl e \<Rightarrow> Inl e
            | Inr cls \<Rightarrow> Inl (call_with_kwargs cls (dict_get env ''data'')))"
  using assms
  by (auto simp add: check_api_response_def classify_envelope_def Let_def split: option.splits)

lemma table_get_string:
  "table_get (JStr s) =
     Inr (if s = ''MISSING_QUERY_PARAMETER'' \<or> s = ''INVALID_QUERY_PARAMETER''
            then RequestFormError
          else if s = ''INVALID_PARAMETER'' then InvalidFieldValueError
          else if s = ''INVALID_PARAMETER_COMBINATION'' then InvalidFieldCombinationError
          else if s = ''READ_ONLY_PARAMETER'' then ReadOnlyFieldError
          else if s = ''UNKNOWN_PARAMETER'' then UnknownFieldError
          else if s = ''INVALID_OBJECT_STATE'' then InvalidObjectStateError
          else RequestDataError)"
  by (simp add: table_get_def status_table_def)

lemma table_get_cases:
  "table_get st = Inl TypeError \<and> \<not> hashable st \<or> (\<exists>cls. table_get st = Inr cls \<and> hashable st)"
  by (auto simp add: table_get_def split: option.splits)

lemma call_with_kwargs_typed:
  "(\<exists>e. call_with_kwargs cls d = APIError e) \<longleftrightarrow>
     (\<exists>kw. d = JObj kw \<and> has_key kw ''message'' \<and> \<not> has_key kw ''self'')"
  by (cases d) (auto simp add: call_with_kwargs_def has_key_map_of split: option.splits)

lemma call_with_kwargs_untyped:
  "(\<nexists>e. call_with_kwargs cls d = APIError e) \<Longrightarrow> call_with_kwargs cls d = TypeError"
  by (cases d) (auto simp add: call_with_kwargs_def split: option.splits if_splits)

text \<open>
  Claim C1. A 404 response with JSON content type and the envelope
  \<^verbatim>\<open>{"status": "NOT_AVAILABLE_YET", "data": {}}\<close> should raise the distinct
  \<^verbatim>\<open>ObjectNotAvailableYetError\<close>. The classifier raises a plain \<^verbatim>\<open>ObjectNotFoundError\<close>
  there, the class it also raises for any other 404 envelope; only the message differs,
  and a handler for \<^verbatim>\<open>ObjectNotAvailableYetError\<close> does not catch it. The content-type
  branch of the same function does raise \<^verbatim>\<open>ObjectNotAvailableYetError\<close> for this status.
\<close>

theorem C1_not_available_yet_404_raises_plain_not_found:
  "check_api_response
     (json_response 404 (JObj [(''status'', JStr ''NOT_AVAILABLE_YET''), (''data'', JObj [])]))
     None
   = Inl (APIError \<lparr>kind = ObjectNotFoundError, message = Lit ''Object not available yet'',
                     field = JNull, field_path = JNull, extra_data = None\<rparr>)
   \<and> check_api_response
       (json_response 404 (JObj [(''status'', JStr ''NOT_FOUND''), (''data'', JObj [])])) None
     = Inl (APIError \<lparr>kind = ObjectNotFoundError, message = Lit ''Object not found'',
                       field = JNull, field_path = JNull, extra_data = None\<rparr>)
   \<and> \<not> caught_by ObjectNotFoundError ObjectNotAvailableYetError
   \<and> unexpected_content_type
       (json_response 200 (JObj [(''status'', JStr ''NOT_AVAILABLE_YET''), (''data'', JObj [])]))
       ''application/json''
     = APIError \<lparr>kind = ObjectNotAvailableYetError, message = Lit ''Object not available yet'',
                  field = JNull, field_path = JNull, extra_data = None\<rparr>"
  by (simp add: check_api_response_def json_response_def dict_get_def has_key_def
      classify_envelope_def plain_error_def init_error_def caught_by_def
      unexpected_content_type_def py_get_def)

text \<open>
  Claim C2, as stated, fails: a 400 response whose envelope is
  \<^verbatim>\<open>{"status": "INVALID_PARAMETER", "data": {}}\<close> does not raise the invalid field value
  error of the table, since the constructor call lacks its \<^verbatim>\<open>message\<close> argument.
\<close>

theorem C2_counterexample:
  "check_api_response
     (json_response 400 (JObj [(''status'', JStr ''INVALID_PARAMETER''), (''data'', JObj [])]))
     None
   = Inl TypeError"
  by (simp add: check_api_response_def json_response_def dict_get_def has_key_def
      classify_envelope_def table_get_def status_table_def call_with_kwargs_def)

text \<open>
  Claim C2, amended. For a response with JSON content type as expected, a status code
  outside 500..599, 403, 404 and 405, and an envelope whose status is a non-empty string
  \<open>s\<close> other than \<^verbatim>\<open>"OK"\<close> and whose data is an object with a \<^verbatim>\<open>message\<close> entry and no
  entry named \<^verbatim>\<open>self\<close>: the classifier raises the error class that the fixed table gives
  for \<open>s\<close> (the generic request data error for a string not in the table), with the data's
  \<^verbatim>\<open>message\<close> as its message, the data's \<^verbatim>\<open>field\<close> and \<^verbatim>\<open>field_path\<close> as its field and
  field path, and the remaining entries as its extra data.
\<close>

theorem C2_table_classification:
  assumes "headers resp ''content-type'' = Some ''application/json''"
    and "expect = None \<or> \<not> ok resp \<or> expect = Some ''application/json''"
    and "\<not> (500 \<le> status_code resp \<and> status_code resp \<le> 599)"
    and "status_code resp \<noteq> 403" "status_code resp \<noteq> 404" "status_code resp \<noteq> 405"
    and "body_json resp = Some (JObj env)"
    and "map_of env ''status'' = Some (JStr s)" and "s \<noteq> []" and "s \<noteq> ''OK''"
    and "map_of env ''data'' = Some (JObj kw)"
    and "map_of kw ''message'' = Some m" and "\<not> has_key kw ''self''"
  shows "\<exists>e. check_api_response resp expect = Inl (APIError e)
           \<and> kind e =
               (if s = ''MISSING_QUERY_PARAMETER'' \<or> s = ''INVALID_QUERY_PARAMETER''
                  then RequestFormError
                else if s = ''INVALID_PARAMETER'' then InvalidFieldValueError
                else if s = ''INVALID_PARAMETER_COMBINATION'' then InvalidFieldCombinationError
                else if s = ''READ_ONLY_PARAMETER'' then ReadOnlyFieldError
                else if s = ''UNKNOWN_PARAMETER'' then UnknownFieldError
                else if s = ''INVALID_OBJECT_STATE'' then InvalidObjectStateError
                else RequestDataError)
           \<and> message e = Val m
           \<and> field e = dict_get kw ''field''
           \<and> field_path e = dict_get kw ''field_path''
           \<and> extra_data e =
               (let rest = filter (\<lambda>kv. fst kv \<notin> {''message'', ''field'', ''field_path''}) kw
                in if rest = [] then None else Some rest)"
proof -
  have st: "dict_get env ''status'' = JStr s" and d: "dict_get env ''data'' = JObj kw"
    using assms by (simp_all add: dict_get_def)
  have hk: "has_key env ''data''"
    using assms by (simp add: has_key_map_of)
  have "check_api_response resp expect =
          (case table_get (dict_get env ''status'') of
             Inl e \<Rightarrow> Inl e
           | Inr cls \<Rightarrow> Inl (call_with_kwargs cls (dict_get env ''data'')))"
    using assms st hk by (intro table_branch) simp_all
  moreover have "dict_get (filter (\<lambda>kv. fst kv \<noteq> ''message'') kw) k = dict_get kw k"
    if "k \<noteq> ''message''" for k
    using that by (induction kw) (auto simp add: dict_get_def)
  moreover have "filter (\<lambda>kv. fst kv \<noteq> ''field'' \<and> fst kv \<noteq> ''field_path'')
                   (filter (\<lambda>kv. fst kv \<noteq> ''message'') kw)
                 = filter (\<lambda>kv. fst kv \<notin> {''message'', ''field'', ''field_path''}) kw"
    by (induction kw) auto
  ultimately show ?thesis
    using assms(12,13)
    by (simp add: st d table_get_string call_with_kwargs_def init_error_def Let_def)
qed

theorem C2_table_classification_witness:
  "check_api_response
     (json_response 400
        (JObj [(''status'', JStr ''INVALID_PARAMETER''),
               (''data'', JObj [(''message'', JStr ''bad value''), (''field'', JStr ''name''),
                                (''hint'', JInt 3)])]))
     None
   = Inl (APIError \<lparr>kind = InvalidFieldValueError, message = Val (JStr ''bad value''),
                     field = JStr ''name'', field_path = JNull,
                     extra_data = Some [(''hint'', JInt 3)]\<rparr>)"
proof -
  obtain e where
    "check_api_response
       (json_response 400
          (JObj [(''status'', JStr ''INVALID_PARAMETER''),
                 (''data'', JObj [(''message'', JStr ''bad value''), (''field'', JStr ''name''),
                                  (''hint'', JInt 3)])]))
       None = Inl (APIError e)"
    and "kind e = InvalidFieldValueError" and "message e = Val (JStr ''bad value'')"
    and "field e = JStr ''name''" and "field_path e = JNull"
    and "extra_data e = Some [(''hint'', JInt 3)]"
    using C2_table_classification
      [of "json_response 400
             (JObj [(''status'', JStr ''INVALID_PARAMETER''),
                    (''data'', JObj [(''message'', JStr ''bad value''), (''field'', JStr ''name''),
                                     (''hint'', JInt 3)])])"
          None
          "[(''status'', JStr ''INVALID_PARAMETER''),
            (''data'', JObj [(''message'', JStr ''bad value''), (''field'', JStr ''name''),
                             (''hint'', JInt 3)])]"
          "''INVALID_PARAMETER''"
          "[(''message'', JStr ''bad value''), (''field'', JStr ''name''), (''hint'', JInt 3)]"
          "JStr ''bad value''"]
    by (auto simp add: json_response_def has_key_def dict_get_def)
  then show ?thesis by (cases e) simp
qed

text \<open>
  Claim C10. In the final table branch (JSON content type as expected, an envelope with a
  true status other than \<^verbatim>\<open>"OK"\<close> and a data key, a status code outside 5xx, 403, 404 and
  405), the classifier raises a typed API error exactly when the envelope's data is an
  object that has a \<^verbatim>\<open>message\<close> key and no key colliding with the constructor's own
  \<^verbatim>\<open>self\<close> parameter (and the status can be looked up in the table at all); when the data
  is an array, or an object without \<^verbatim>\<open>message\<close>, and in every other case without a typed
  error, the classifier itself fails with a \<^verbatim>\<open>TypeError\<close>.
\<close>

theorem C10_typed_error_only_with_message:
  assumes "headers resp ''content-type'' = Some ''application/json''"
    and "expect = None \<or> \<not> ok resp \<or> expect = Some ''application/json''"
    and "\<not> (500 \<le> status_code resp \<and> status_code resp \<le> 599)"
    and "status_code resp \<noteq> 403" "status_code resp \<noteq> 404" "status_code resp \<noteq> 405"
    and "body_json resp = Some (JObj env)"
    and "map_of env ''status'' = Some st" and "truthy st" and "st \<noteq> JStr ''OK''"
    and "map_of env ''data'' = Some d"
  shows "((\<exists>e. check_api_response resp expect = Inl (APIError e)) \<longleftrightarrow>
            hashable st \<and> (\<exists>kw. d = JObj kw \<and> has_key kw ''message'' \<and> \<not> has_key kw ''self''))
       \<and> ((\<exists>xs. d = JArr xs) \<longrightarrow> check_api_response resp expect = Inl TypeError)
       \<and> ((\<exists>kw. d = JObj kw \<and> \<not> has_key kw ''message'') \<longrightarrow>
             check_api_response resp expect = Inl TypeError)
       \<and> ((\<nexists>e. check_api_response resp expect = Inl (APIError e)) \<longrightarrow>
             check_api_response resp expect = Inl TypeError)"
proof -
  have st: "dict_get env ''status'' = st" and d: "dict_get env ''data'' = d"
    using assms by (simp_all add: dict_get_def)
  have hk: "has_key env ''data''"
    using assms by (simp add: has_key_map_of)
  have eq: "check_api_response resp expect =
          (case table_get st of
             Inl e \<Rightarrow> Inl e
           | Inr cls \<Rightarrow> Inl (call_with_kwargs cls d))"
    using table_branch [of resp expect env] assms hk unfolding st d by simp
  show ?thesis
  proof (cases "hashable st")
    case False
    then have "check_api_response resp expect = Inl TypeError"
      using eq by (simp add: table_get_def)
    with False show ?thesis by simp
  next
    case True
    then obtain cls where "table_get st = Inr cls"
      using table_get_cases [of st] by auto
    then have r: "check_api_response resp expect = Inl (call_with_kwargs cls d)"
      using eq by simp
    have 1: "(\<exists>e. check_api_response resp expect = Inl (APIError e)) \<longleftrightarrow>
            hashable st \<and> (\<exists>kw. d = JObj kw \<and> has_key kw ''message'' \<and> \<not> has_key kw ''self'')"
      using True call_with_kwargs_typed [of cls d] by (simp add: r)
    have 2: "(\<nexists>e. check_api_response resp expect = Inl (APIError e)) \<longrightarrow>
             check_api_response resp expect = Inl TypeError"
      using call_with_kwargs_untyped [of cls d] by (simp add: r)
    have 3: "(\<exists>xs. d = JArr xs) \<longrightarrow> check_api_response resp expect = Inl TypeError"
      using 1 2 by auto
    have 4: "(\<exists>kw. d = JObj kw \<and> \<not> has_key kw ''message'') \<longrightarrow>
             check_api_response resp expect = Inl TypeError"
      using 1 2 by auto
    show ?thesis using 1 2 3 4 by blast
  qed
qed

theorem C10_typed_error_only_with_message_witness:
  "check_api_response
     (json_response 400
        (JObj [(''status'', JStr ''INVALID_PARAMETER''), (''data'', JArr [JStr ''bad value''])]))
     None
   = Inl TypeError"
proof -
  let ?env = "[(''status'', JStr ''INVALID_PARAMETER''), (''data'', JArr [JStr ''bad value''])]"
  let ?r = "check_api_response (json_response 400 (JObj ?env)) None"
  have "((\<exists>e. ?r = Inl (APIError e)) \<longleftrightarrow>
           hashable (JStr ''INVALID_PARAMETER'') \<and>
           (\<exists>kw. JArr [JStr ''bad value''] = JObj kw \<and> has_key kw ''message''
                 \<and> \<not> has_key kw ''self''))
       \<and> ((\<exists>xs. JArr [JStr ''bad value''] = JArr xs) \<longrightarrow> ?r = Inl TypeError)
       \<and> ((\<exists>kw. JArr [JStr ''bad value''] = JObj kw \<and> \<not> has_key kw ''message'') \<longrightarrow>
             ?r = Inl TypeError)
       \<and> ((\<nexists>e. ?r = Inl (APIError e)) \<longrightarrow> ?r = Inl TypeError)"
    by (rule C10_typed_error_only_with_message [where env = ?env])
       (simp_all add: json_response_def)
  then have "(\<exists>xs. JArr [JStr ''bad value''] = JArr xs) \<longrightarrow> ?r = Inl TypeError"
    by (elim conjE)
  then show ?thesis by simp
qed

section \<open>Properties of remote objects\<close>

lemma classify_envelope_Inr:
  "classify_envelope code env st = Inr r \<Longrightarrow> r = Decoded (JObj env) \<and> st = JStr ''OK''"
  by (auto simp add: classify_envelope_def Let_def split: if_splits sum.splits)

lemma check_api_response_Inr:
  assumes "check_api_response resp None = Inr r"
  shows "\<exists>env. r = Decoded (JObj env) \<and> body_json resp = Some (JObj env)
           \<and> dict_get env ''status'' = JStr ''OK'' \<and> has_key env ''data''"
  using assms
  by (auto simp add: check_api_response_def Let_def
      split: if_splits option.splits json.splits dest: classify_envelope_Inr)

lemma call_Inr:
  assumes "call srv rq None w = (Inr r, w')"
  shows "\<exists>resp env. fst (srv (server_state w) rq) = Inr resp
           \<and> body_json resp = Some (JObj env) \<and> r = Decoded (JObj env)
           \<and> w' = \<lparr>server_state = snd (srv (server_state w) rq), sent = sent w @ [rq]\<rparr>"
  using assms
  by (auto simp add: call_def perform_def split: prod.splits sum.splits
      dest: check_api_response_Inr)

lemma store_data_Inr:
  assumes "store_data ob r = (Inr u, ob', w')"
  shows "\<exists>resp d. r = (Inr resp, w') \<and> result_getitem resp ''data'' = Inr d \<and> ob' = ob\<lparr>o_data := d\<rparr>"
  using assms by (auto simp add: store_data_def split: prod.splits sum.splits)

lemma store_data_Inl:
  assumes "store_data ob r = (Inl e, ob', w')"
  shows "ob' = ob \<and> w' = snd r"
  using assms by (auto simp add: store_data_def split: prod.splits sum.splits)

lemma stored_from_response:
  assumes "store_data ob (call srv rq None w) = (Inr u, ob', w')"
  shows "\<exists>resp env. fst (srv (server_state w) rq) = Inr resp
           \<and> body_json resp = Some (JObj env)
           \<and> map_of env ''data'' = Some (o_data ob')
           \<and> ob' = ob\<lparr>o_data := o_data ob'\<rparr>"
proof -
  obtain r d where r: "call srv rq None w = (Inr r, w')"
    and d: "result_getitem r ''data'' = Inr d" and ob': "ob' = ob\<lparr>o_data := d\<rparr>"
    using store_data_Inr [OF assms] by blast
  obtain resp env where "fst (srv (server_state w) rq) = Inr resp"
    and "body_json resp = Some (JObj env)" and "r = Decoded (JObj env)"
    using call_Inr [OF r] by blast
  moreover from this d have "map_of env ''data'' = Some d"
    by (auto simp add: result_getitem_def py_getitem_def split: option.splits)
  ultimately show ?thesis using ob' by auto
qed

lemma check_api_response_ok:
  assumes "ok_envelope resp dat"
  shows "\<exists>env. check_api_response resp None = Inr (Decoded (JObj env))
           \<and> map_of env ''data'' = Some dat"
  using assms
  by (auto simp add: ok_envelope_def check_api_response_def classify_envelope_def
      dict_get_def has_key_map_of ok_def Let_def split: option.splits json.splits)

lemma store_data_ok:
  assumes "srv (server_state w) rq = (Inr resp, s')" and "ok_envelope resp dat"
  shows "store_data ob (call srv rq None w)
           = (Inr (), ob\<lparr>o_data := dat\<rparr>, \<lparr>server_state = s', sent = sent w @ [rq]\<rparr>)"
proof -
  obtain env where "check_api_response resp None = Inr (Decoded (JObj env))"
    and "map_of env ''data'' = Some dat"
    using check_api_response_ok [OF assms(2)] by blast
  then show ?thesis
    using assms(1)
    by (simp add: store_data_def call_def perform_def result_getitem_def py_getitem_def)
qed

text \<open>
  Claim C4. Whenever \<^verbatim>\<open>refresh()\<close>, \<^verbatim>\<open>update(data)\<close> or \<^verbatim>\<open>perform_event(name, data)\<close>
  returns normally, the server answered the call's request (the GET or PUT on the object's
  URL, the POST on its command URL) with a response whose JSON envelope has a
  \<^verbatim>\<open>data\<close> entry, and the object's snapshot afterwards is exactly that entry: the
  object is the old one with its whole snapshot replaced, whatever the old snapshot held.
  And the calls do succeed so: when the object has a URL and the server answers the
  call's request with a success envelope of data \<open>dat\<close>, the call returns normally, has
  made that one request, and leaves the object with the snapshot \<open>dat\<close> and nothing of
  the old one.
\<close>

theorem C4_snapshot_is_response_data:
  "(refresh srv ob w = (Inr (), ob', w') \<longrightarrow>
      (\<exists>u resp env. object_url ob = Inr u
         \<and> fst (srv (server_state w) (get_request (o_api ob) u None)) = Inr resp
         \<and> body_json resp = Some (JObj env)
         \<and> map_of env ''data'' = Some (o_data ob')
         \<and> ob' = ob\<lparr>o_data := o_data ob'\<rparr>))
 \<and> (update srv d ob w = (Inr (), ob', w') \<longrightarrow>
      (\<exists>u resp env. object_url ob = Inr u
         \<and> fst (srv (server_state w) (put_request (o_api ob) u d)) = Inr resp
         \<and> body_json resp = Some (JObj env)
         \<and> map_of env ''data'' = Some (o_data ob')
         \<and> ob' = ob\<lparr>o_data := o_data ob'\<rparr>))
 \<and> (perform_event srv evt_name evt_data ob w = (Inr (), ob', w') \<longrightarrow>
      (\<exists>u resp env. object_url ob = Inr u
         \<and> fst (srv (server_state w)
                  (post_request (o_api ob) (Format ''{}/command/{}'' [u, Lit evt_name]) evt_data))
             = Inr resp
         \<and> body_json resp = Some (JObj env)
         \<and> map_of env ''data'' = Some (o_data ob')
         \<and> ob' = ob\<lparr>o_data := o_data ob'\<rparr>))
 \<and> (object_url ob = Inr u
      \<and> srv (server_state w) (get_request (o_api ob) u None) = (Inr resp, s')
      \<and> ok_envelope resp dat \<longrightarrow>
      refresh srv ob w
        = (Inr (), ob\<lparr>o_data := dat\<rparr>,
           \<lparr>server_state = s', sent = sent w @ [get_request (o_api ob) u None]\<rparr>))
 \<and> (object_url ob = Inr u
      \<and> srv (server_state w) (put_request (o_api ob) u d) = (Inr resp, s')
      \<and> ok_envelope resp dat \<longrightarrow>
      update srv d ob w
        = (Inr (), ob\<lparr>o_data := dat\<rparr>,
           \<lparr>server_state = s', sent = sent w @ [put_request (o_api ob) u d]\<rparr>))
 \<and> (object_url ob = Inr u
      \<and> srv (server_state w)
           (post_request (o_api ob) (Format ''{}/command/{}'' [u, Lit evt_name]) evt_data)
         = (Inr resp, s')
      \<and> ok_envelope resp dat \<longrightarrow>
      perform_event srv evt_name evt_data ob w
        = (Inr (), ob\<lparr>o_data := dat\<rparr>,
           \<lparr>server_state = s',
             sent = sent w @ [post_request (o_api ob)
                                (Format ''{}/command/{}'' [u, Lit evt_name]) evt_data]\<rparr>))"
proof (intro conjI impI)
  assume "refresh srv ob w = (Inr (), ob', w')"
  then obtain u where "object_url ob = Inr u"
    and "store_data ob (call srv (get_request (o_api ob) u None) None w) = (Inr (), ob', w')"
    by (auto simp add: refresh_def api_get_def split: sum.splits)
  then show "\<exists>u resp env. object_url ob = Inr u
         \<and> fst (srv (server_state w) (get_request (o_api ob) u None)) = Inr resp
         \<and> body_json resp = Some (JObj env)
         \<and> map_of env ''data'' = Some (o_data ob')
         \<and> ob' = ob\<lparr>o_data := o_data ob'\<rparr>"
    using stored_from_response by blast
next
  assume "update srv d ob w = (Inr (), ob', w')"
  then obtain u where "object_url ob = Inr u"
    and "store_data ob (call srv (put_request (o_api ob) u d) None w) = (Inr (), ob', w')"
    by (auto simp add: update_def api_put_def split: sum.splits)
  then show "\<exists>u resp env. object_url ob = Inr u
         \<and> fst (srv (server_state w) (put_request (o_api ob) u d)) = Inr resp
         \<and> body_json resp = Some (JObj env)
         \<and> map_of env ''data'' = Some (o_data ob')
         \<and> ob' = ob\<lparr>o_data := o_data ob'\<rparr>"
    using stored_from_response by blast
next
  assume "perform_event srv evt_name evt_data ob w = (Inr (), ob', w')"
  then obtain u where "object_url ob = Inr u"
    and "store_data ob
           (call srv (post_request (o_api ob) (Format ''{}/command/{}'' [u, Lit evt_name]) evt_data)
              None w) = (Inr (), ob', w')"
    by (auto simp add: perform_event_def api_post_def split: sum.splits)
  then show "\<exists>u resp env. object_url ob = Inr u
         \<and> fst (srv (server_state w)
                  (post_request (o_api ob) (Format ''{}/command/{}'' [u, Lit evt_name]) evt_data))
             = Inr resp
         \<and> body_json resp = Some (JObj env)
         \<and> map_of env ''data'' = Some (o_data ob')
         \<and> ob' = ob\<lparr>o_data := o_data ob'\<rparr>"
    using stored_from_response by blast
next
  assume "object_url ob = Inr u
      \<and> srv (server_state w) (get_request (o_api ob) u None) = (Inr resp, s')
      \<and> ok_envelope resp dat"
  then show "refresh srv ob w
        = (Inr (), ob\<lparr>o_data := dat\<rparr>,
           \<lparr>server_state = s', sent = sent w @ [get_request (o_api ob) u None]\<rparr>)"
    by (simp add: refresh_def api_get_def store_data_ok)
next
  assume "object_url ob = Inr u
      \<and> srv (server_state w) (put_request (o_api ob) u d) = (Inr resp, s')
      \<and> ok_envelope resp dat"
  then show "update srv d ob w
        = (Inr (), ob\<lparr>o_data := dat\<rparr>,
           \<lparr>server_state = s', sent = sent w @ [put_request (o_api ob) u d]\<rparr>)"
    by (simp add: update_def api_put_def store_data_ok)
next
  assume "object_url ob = Inr u
      \<and> srv (server_state w)
           (post_request (o_api ob) (Format ''{}/command/{}'' [u, Lit evt_name]) evt_data)
         = (Inr resp, s')
      \<and> ok_envelope resp dat"
  then show "perform_event srv evt_name evt_data ob w
        = (Inr (), ob\<lparr>o_data := dat\<rparr>,
           \<lparr>server_state = s',
             sent = sent w @ [post_request (o_api ob)
                                (Format ''{}/command/{}'' [u, Lit evt_name]) evt_data]\<rparr>)"
    by (simp add: perform_event_def api_post_def store_data_ok)
qed

lemmas transport_defs =
  call_def perform_def api_get_def api_post_def api_put_def api_delete_def
  get_request_def post_request_def put_request_def delete_request_def

lemmas classifier_defs =
  check_api_response_def classify_envelope_def server_error_def unexpected_content_type_def
  table_get_def status_table_def call_with_kwargs_def plain_error_def init_error_def
  ok_def dict_get_def has_key_def py_get_def py_getitem_def result_getitem_def

lemmas object_defs =
  refresh_def update_def delete_def perform_event_def send_def create_def
  create_and_send_def store_data_def object_url_def SimpleObject_def SingletonObject_def
  BillogramClass_def

lemmas demo_defs = demo_api_def BillogramAPI_def always_def idle_def json_response_def

theorem C4_snapshot_is_response_data_witness:
  "refresh
     (always (json_response 200
        (JObj [(''status'', JStr ''OK''), (''data'', JObj [(''name'', JStr ''new'')])])))
     \<lparr>o_api = demo_api, o_object_class = UrlName ''settings'',
       o_data = JObj [(''name'', JStr ''old''), (''vat'', JInt 25)]\<rparr>
     idle
   = (Inr (),
      \<lparr>o_api = demo_api, o_object_class = UrlName ''settings'',
        o_data = JObj [(''name'', JStr ''new'')]\<rparr>,
      \<lparr>server_state = (), sent = [get_request demo_api (Lit ''settings'') None]\<rparr>)
 \<and> update
     (always (json_response 200
        (JObj [(''status'', JStr ''OK''), (''data'', JObj [(''name'', JStr ''new'')])])))
     (JObj [(''vat'', JInt 12)])
     \<lparr>o_api = demo_api, o_object_class = UrlName ''settings'',
       o_data = JObj [(''name'', JStr ''old''), (''vat'', JInt 25)]\<rparr>
     idle
   = (Inr (),
      \<lparr>o_api = demo_api, o_object_class = UrlName ''settings'',
        o_data = JObj [(''name'', JStr ''new'')]\<rparr>,
      \<lparr>server_state = (),
        sent = [put_request demo_api (Lit ''settings'') (JObj [(''vat'', JInt 12)])]\<rparr>)
 \<and> perform_event
     (always (json_response 200
        (JObj [(''status'', JStr ''OK''), (''data'', JObj [(''name'', JStr ''new'')])])))
     ''sell'' JNull
     (SimpleObject demo_api (BillogramClass demo_api)
        (JObj [(''id'', JStr ''b1''), (''state'', JStr ''Unattested'')]))
     idle
   = (Inr (),
      SimpleObject demo_api (BillogramClass demo_api) (JObj [(''name'', JStr ''new'')]),
      \<lparr>server_state = (),
        sent = [post_request demo_api
                  (Format ''{}/command/{}''
                     [Format ''{}/{}'' [Lit ''billogram'', Val (JStr ''b1'')], Lit ''sell''])
                  JNull]\<rparr>)
 \<and> (\<exists>u resp env.
       object_url \<lparr>o_api = demo_api, o_object_class = UrlName ''settings'',
                   o_data = JObj [(''name'', JStr ''old''), (''vat'', JInt 25)]\<rparr> = Inr u
     \<and> fst (always (json_response 200
               (JObj [(''status'', JStr ''OK''), (''data'', JObj [(''name'', JStr ''new'')])]))
             () (get_request demo_api u None)) = Inr resp
     \<and> body_json resp = Some (JObj env)
     \<and> map_of env ''data'' = Some (JObj [(''name'', JStr ''new'')]))"
proof -
  let ?resp = "json_response 200
        (JObj [(''status'', JStr ''OK''), (''data'', JObj [(''name'', JStr ''new'')])])"
  let ?new = "JObj [(''name'', JStr ''new'')]"
  let ?settings = "\<lparr>o_api = demo_api, o_object_class = UrlName ''settings'',
                   o_data = JObj [(''name'', JStr ''old''), (''vat'', JInt 25)]\<rparr>"
  let ?billogram = "SimpleObject demo_api (BillogramClass demo_api)
                     (JObj [(''id'', JStr ''b1''), (''state'', JStr ''Unattested'')])"
  let ?u = "Format ''{}/{}'' [Lit ''billogram'', Val (JStr ''b1'')]"
  have ok: "ok_envelope ?resp ?new"
    by (simp add: ok_envelope_def json_response_def)
  have u1: "object_url ?settings = Inr (Lit ''settings'')"
    by (simp add: object_url_def)
  have u3: "object_url ?billogram = Inr ?u"
    by (simp add: object_url_def SimpleObject_def BillogramClass_def py_getitem_def)
  have 1: "refresh (always ?resp) ?settings idle
             = (Inr (), ?settings\<lparr>o_data := ?new\<rparr>,
                \<lparr>server_state = (),
                  sent = sent idle @ [get_request (o_api ?settings) (Lit ''settings'') None]\<rparr>)"
    using C4_snapshot_is_response_data [of "always ?resp" ?settings idle _ _ _ _ _ "Lit ''settings''" ?resp "()" ?new]
      u1 ok
    by (simp add: always_def)
  have 2: "update (always ?resp) (JObj [(''vat'', JInt 12)]) ?settings idle
             = (Inr (), ?settings\<lparr>o_data := ?new\<rparr>,
                \<lparr>server_state = (),
                  sent = sent idle @ [put_request (o_api ?settings) (Lit ''settings'')
                                        (JObj [(''vat'', JInt 12)])]\<rparr>)"
    using C4_snapshot_is_response_data [of "always ?resp" ?settings idle _ _ "JObj [(''vat'', JInt 12)]" _ _
        "Lit ''settings''" ?resp "()" ?new]
      u1 ok
    by (simp add: always_def)
  have 3: "perform_event (always ?resp) ''sell'' JNull ?billogram idle
             = (Inr (), ?billogram\<lparr>o_data := ?new\<rparr>,
                \<lparr>server_state = (),
                  sent = sent idle @ [post_request (o_api ?billogram)
                                        (Format ''{}/command/{}'' [?u, Lit ''sell'']) JNull]\<rparr>)"
    using C4_snapshot_is_response_data [of "always ?resp" ?billogram idle _ _ _ "''sell''" JNull ?u ?resp "()" ?new]
      u3 ok
    by (simp add: always_def)
  have 4: "\<exists>u resp env. object_url ?settings = Inr u
         \<and> fst (always ?resp (server_state idle) (get_request (o_api ?settings) u None)) = Inr resp
         \<and> body_json resp = Some (JObj env)
         \<and> map_of env ''data'' = Some (o_data (?settings\<lparr>o_data := ?new\<rparr>))"
    using C4_snapshot_is_response_data [THEN conjunct1, rule_format, OF 1] by blast
  show ?thesis
    using 1 2 3 4 by (simp add: idle_def SimpleObject_def)
qed

text \<open>
  Claim C6. When the PUT request of \<^verbatim>\<open>update(data)\<close> is answered with status code 403
  and a JSON response (content type \<^verbatim>\<open>application/json\<close>) whose envelope has the
  status \<^verbatim>\<open>"INVALID_AUTH"\<close> and a data entry, such as
  \<^verbatim>\<open>{"status": "INVALID_AUTH", "data": {}}\<close>, the call raises an
  \<^verbatim>\<open>InvalidAuthenticationError\<close>, which a handler for \<^verbatim>\<open>PermissionDeniedError\<close> catches,
  and the object is left exactly as it was.
\<close>

theorem C6_invalid_auth_leaves_snapshot:
  assumes "object_url ob = Inr u"
    and "fst (srv (server_state w) (put_request (o_api ob) u d)) = Inr resp"
    and "status_code resp = 403"
    and "headers resp ''content-type'' = Some ''application/json''"
    and "body_json resp = Some (JObj env)"
    and "map_of env ''status'' = Some (JStr ''INVALID_AUTH'')"
    and "has_key env ''data''"
  shows "\<exists>e w'. update srv d ob w = (Inl (APIError e), ob, w')
           \<and> kind e = InvalidAuthenticationError
           \<and> caught_by (kind e) PermissionDeniedError
           \<and> caught_by (kind e) BillogramAPIError
           \<and> sent w' = sent w @ [put_request (o_api ob) u d]"
proof -
  have "check_api_response resp None =
          Inl (plain_error InvalidAuthenticationError
                 (''The user/key combination is wrong, check the credentials '' @
                  ''                     used and possibly generate a new set''))"
    using assms(3-7)
    by (simp add: check_api_response_def classify_envelope_def dict_get_def ok_def)
  then have "store_data ob (api_put srv (o_api ob) u d w)
          = (Inl (plain_error InvalidAuthenticationError
                 (''The user/key combination is wrong, check the credentials '' @
                  ''                     used and possibly generate a new set'')),
             ob, \<lparr>server_state = snd (srv (server_state w) (put_request (o_api ob) u d)),
                  sent = sent w @ [put_request (o_api ob) u d]\<rparr>)"
    using assms(2)
    by (cases "srv (server_state w) (put_request (o_api ob) u d)")
       (simp add: api_put_def call_def perform_def store_data_def)
  then show ?thesis
    using assms(1)
    by (simp add: update_def plain_error_def init_error_def caught_by_def)
qed

theorem C6_invalid_auth_leaves_snapshot_witness:
  "\<exists>e w'. update
            (always (json_response 403 (JObj [(''status'', JStr ''INVALID_AUTH''), (''data'', JObj [])])))
            (JObj [(''name'', JStr ''new'')])
            \<lparr>o_api = demo_api, o_object_class = UrlName ''settings'',
              o_data = JObj [(''name'', JStr ''old'')]\<rparr>
            idle
          = (Inl (APIError e),
             \<lparr>o_api = demo_api, o_object_class = UrlName ''settings'',
               o_data = JObj [(''name'', JStr ''old'')]\<rparr>, w')
        \<and> kind e = InvalidAuthenticationError"
  using C6_invalid_auth_leaves_snapshot
    [of "\<lparr>o_api = demo_api, o_object_class = UrlName ''settings'',
           o_data = JObj [(''name'', JStr ''old'')]\<rparr>"
        "Lit ''settings''"
        "always (json_response 403 (JObj [(''status'', JStr ''INVALID_AUTH''), (''data'', JObj [])]))"
        idle
        "JObj [(''name'', JStr ''new'')]"
        "json_response 403 (JObj [(''status'', JStr ''INVALID_AUTH''), (''data'', JObj [])])"
        "[(''status'', JStr ''INVALID_AUTH''), (''data'', JObj [])]"]
  by (simp add: object_url_def always_def json_response_def has_key_def) blast

lemma send_Inl_unchanged:
  "send srv method ob w = (Inl e, ob', w') \<Longrightarrow> ob' = ob"
  by (auto simp add: send_def perform_event_def split: if_splits sum.splits
      dest: store_data_Inl)

lemma delete_Inr:
  assumes "delete srv ob w = (Inr x, w')"
  shows "\<exists>u. object_url ob = Inr u \<and> sent w' = sent w @ [delete_request (o_api ob) u]"
  using assms
  by (auto simp add: delete_def api_delete_def call_def perform_def
      split: sum.splits prod.splits)

text \<open>
  Claim C5, amended. For a method among Email, Letter and Email+Letter, when the create
  step succeeds, the send step raises an error and the delete of the created object
  succeeds, \<^verbatim>\<open>create_and_send\<close> has issued a DELETE request on the URL of the created
  object as its last request and raises the error of the send step.
\<close>

theorem C5_delete_then_reraise:
  assumes "method \<in> {''Email'', ''Letter'', ''Email+Letter''}"
    and "create srv c d w = (Inr billogram, w1)"
    and "send srv method billogram w1 = (Inl e, billogram', w2)"
    and "delete srv billogram w2 = (Inr (), w3)"
  shows "create_and_send srv c d method w = (Inl e, w3)
       \<and> (\<exists>u. object_url billogram = Inr u
              \<and> sent w3 = sent w2 @ [delete_request (o_api billogram) u])"
proof -
  have "billogram' = billogram"
    using assms(3) by (rule send_Inl_unchanged)
  then have "create_and_send srv c d method w = (Inl e, w3)"
    using assms by (simp add: create_and_send_def)
  then show ?thesis
    using delete_Inr [OF assms(4)] by simp
qed

lemmas script_defs = scripted_def created_ok_def send_refused_def deleted_ok_def broken_def

text \<open>
  Claim C5, as stated, fails: here the create step succeeds, the send step raises an
  invalid object state error and the server answers the DELETE with a 500 page; the caller
  gets the service malfunctioning error of the delete, not the error of the send step.
\<close>

theorem C5_counterexample:
  "fst (create (scripted [created_ok, send_refused] broken) (BillogramClass demo_api) (JObj [])
          \<lparr>server_state = 0, sent = []\<rparr>)
     = Inr (SimpleObject demo_api (BillogramClass demo_api) (JObj [(''id'', JStr ''b1'')]))
   \<and> fst (send (scripted [created_ok, send_refused] broken) ''Email''
            (SimpleObject demo_api (BillogramClass demo_api) (JObj [(''id'', JStr ''b1'')]))
            (snd (create (scripted [created_ok, send_refused] broken) (BillogramClass demo_api)
                    (JObj []) \<lparr>server_state = 0, sent = []\<rparr>)))
     = Inl (APIError \<lparr>kind = InvalidObjectStateError, message = Val (JStr ''already sent''),
                       field = JNull, field_path = JNull, extra_data = None\<rparr>)
   \<and> fst (create_and_send (scripted [created_ok, send_refused] broken) (BillogramClass demo_api)
            (JObj []) ''Email'' \<lparr>server_state = 0, sent = []\<rparr>)
     = Inl (APIError \<lparr>kind = ServiceMalfunctioningError,
                       message = Lit ''Billogram API reported a server error'',
                       field = JNull, field_path = JNull, extra_data = None\<rparr>)"
  by (simp add: object_defs transport_defs classifier_defs demo_defs script_defs)

theorem C5_delete_then_reraise_witness:
  "create_and_send (scripted [created_ok, send_refused] deleted_ok) (BillogramClass demo_api)
     (JObj []) ''Email'' \<lparr>server_state = 0, sent = []\<rparr>
   = (Inl (APIError \<lparr>kind = InvalidObjectStateError, message = Val (JStr ''already sent''),
                      field = JNull, field_path = JNull, extra_data = None\<rparr>),
      \<lparr>server_state = 3,
        sent = [post_request demo_api (Lit ''billogram'') (JObj []),
                post_request demo_api
                  (Format ''{}/command/{}''
                     [Format ''{}/{}'' [Lit ''billogram'', Val (JStr ''b1'')], Lit ''send''])
                  (JObj [(''method'', JStr ''Email'')]),
                delete_request demo_api
                  (Format ''{}/{}'' [Lit ''billogram'', Val (JStr ''b1'')])]\<rparr>)"
proof -
  let ?srv = "scripted [created_ok, send_refused] deleted_ok"
  let ?b = "SimpleObject demo_api (BillogramClass demo_api) (JObj [(''id'', JStr ''b1'')])"
  let ?e = "APIError \<lparr>kind = InvalidObjectStateError, message = Val (JStr ''already sent''),
                      field = JNull, field_path = JNull, extra_data = None\<rparr>"
  let ?r1 = "post_request demo_api (Lit ''billogram'') (JObj [])"
  let ?r2 = "post_request demo_api
               (Format ''{}/command/{}''
                  [Format ''{}/{}'' [Lit ''billogram'', Val (JStr ''b1'')], Lit ''send''])
               (JObj [(''method'', JStr ''Email'')])"
  let ?r3 = "delete_request demo_api (Format ''{}/{}'' [Lit ''billogram'', Val (JStr ''b1'')])"
  have m: "''Email'' \<in> {''Email'', ''Letter'', ''Email+Letter''}"
    by simp
  have 1: "create ?srv (BillogramClass demo_api) (JObj []) \<lparr>server_state = 0, sent = []\<rparr>
             = (Inr ?b, \<lparr>server_state = 1, sent = [?r1]\<rparr>)"
    by (simp add: object_defs transport_defs classifier_defs demo_defs script_defs)
  have 2: "send ?srv ''Email'' ?b \<lparr>server_state = 1, sent = [?r1]\<rparr>
             = (Inl ?e, ?b, \<lparr>server_state = 2, sent = [?r1, ?r2]\<rparr>)"
    by (simp add: object_defs transport_defs classifier_defs demo_defs script_defs)
  have 3: "delete ?srv ?b \<lparr>server_state = 2, sent = [?r1, ?r2]\<rparr>
             = (Inr (), \<lparr>server_state = 3, sent = [?r1, ?r2, ?r3]\<rparr>)"
    by (simp add: object_defs transport_defs classifier_defs demo_defs script_defs)
  show ?thesis
    using C5_delete_then_reraise [OF m 1 2 3] by simp
qed

lemmas query_defs =
  Query_def get_queryargs_def query_args_def make_query_def count_def py_int_def
  total_pages_def get_page_def py_iter_def customers_def page37_def

section \<open>Properties of queries\<close>

lemma ceiling_pages:
  fixes c p :: int
  assumes "1 \<le> p"
  shows "(c + p - 1) div p = \<lceil>real_of_int c / real_of_int p\<rceil>"
proof -
  define z where "z = (c + p - 1) div p"
  have p: "0 < p"
    using assms by simp
  have "p * z + (c + p - 1) mod p = c + p - 1"
    by (simp add: z_def)
  moreover have "0 \<le> (c + p - 1) mod p" and "(c + p - 1) mod p < p"
    using p by simp_all
  ultimately have lo: "p * z - p < c" and hi: "c \<le> p * z"
    by linarith+
  have "real_of_int z - 1 < real_of_int c / real_of_int p"
  proof -
    from lo have "real_of_int (p * z - p) < real_of_int c"
      by (simp only: of_int_less_iff)
    then have "(real_of_int z - 1) * real_of_int p < real_of_int c"
      by (simp add: algebra_simps)
    then show ?thesis
      using p by (simp add: pos_less_divide_eq)
  qed
  moreover have "real_of_int c / real_of_int p \<le> real_of_int z"
  proof -
    from hi have "real_of_int c \<le> real_of_int (p * z)"
      by (simp only: of_int_le_iff)
    then show ?thesis
      using p by (simp add: pos_divide_le_eq algebra_simps)
  qed
  ultimately have "\<lceil>real_of_int c / real_of_int p\<rceil> = z"
    by (rule ceiling_unique)
  then show ?thesis
    by (simp add: z_def)
qed

text \<open>
  Claim C9. For a query whose cached count is \<open>c \<ge> 0\<close> and whose page size is
  \<open>p \<ge> 1\<close>, \<^verbatim>\<open>total_pages\<close> returns the ceiling of \<open>c / p\<close>, without a request. With a
  server whose collection response reports \<^verbatim>\<open>total_count\<close> 37 and a new query (page size
  100), \<^verbatim>\<open>count\<close> is 37 and \<^verbatim>\<open>total_pages\<close> is 1.
\<close>

theorem C9_total_pages_is_ceiling:
  assumes "q_count_cached q = JInt c" and "0 \<le> c" and "1 \<le> q_page_size q"
  shows "total_pages srv q w = (Inr \<lceil>real_of_int c / real_of_int (q_page_size q)\<rceil>, q, w)
       \<and> q_page_size (Query customers) = 100
       \<and> fst (count (always page37) (Query customers) idle) = Inr (JInt 37)
       \<and> fst (total_pages (always page37) (Query customers) idle) = Inr 1"
proof -
  have "total_pages srv q w = (Inr ((c + q_page_size q - 1) div q_page_size q), q, w)"
    using assms by (simp add: total_pages_def count_def py_int_def)
  moreover have "(c + q_page_size q - 1) div q_page_size q
                   = \<lceil>real_of_int c / real_of_int (q_page_size q)\<rceil>"
    using assms(3) by (rule ceiling_pages)
  moreover have "q_page_size (Query customers) = 100"
    by (simp add: Query_def)
  moreover have "fst (count (always page37) (Query customers) idle) = Inr (JInt 37)"
    by (simp add: query_defs transport_defs classifier_defs demo_defs)
  moreover have "fst (total_pages (always page37) (Query customers) idle) = Inr 1"
    by (simp add: query_defs transport_defs classifier_defs demo_defs)
  ultimately show ?thesis by simp
qed

theorem C9_total_pages_is_ceiling_witness:
  "total_pages (always page37) ((Query customers)\<lparr>q_count_cached := JInt 37\<rparr>) idle
     = (Inr 1, (Query customers)\<lparr>q_count_cached := JInt 37\<rparr>, idle)"
  using C9_total_pages_is_ceiling
    [of "(Query customers)\<lparr>q_count_cached := JInt 37\<rparr>" 37 "always page37" idle]
  by (simp add: Query_def)

lemma well_formed_Query: "well_formed_filter (q_filter (Query c))"
  by (simp add: well_formed_filter_def Query_def)

lemma make_query_filter:
  "make_query srv n ps q w = (r, q', w') \<Longrightarrow> q_filter q' = q_filter q"
  by (auto simp add: make_query_def split: prod.splits sum.splits)

text \<open>
  Claim C8, as stated, fails in its second half: assigning to a query the filter it
  already has is accepted and keeps the cached count. Here the count of a new query has
  been read (and cached as 37) and the empty filter is assigned again.
\<close>

theorem C8_counterexample:
  "fst (snd (count (always page37) (Query customers) idle))
     = (Query customers)\<lparr>q_count_cached := JInt 37\<rparr>
   \<and> set_filter Map.empty ((Query customers)\<lparr>q_count_cached := JInt 37\<rparr>)
     = Inr ((Query customers)\<lparr>q_count_cached := JInt 37\<rparr>)
   \<and> q_count_cached ((Query customers)\<lparr>q_count_cached := JInt 37\<rparr>) \<noteq> JNull"
  by (simp add: query_defs transport_defs classifier_defs demo_defs set_filter_def)

text \<open>
  Claim C8, amended. On a query whose filter is empty or complete (as every query has it
  that was made by \<^verbatim>\<open>Query\<close> and changed through its methods), assigning a non-empty
  specification that lacks \<^verbatim>\<open>filter_type\<close>, \<^verbatim>\<open>filter_field\<close> or \<^verbatim>\<open>filter_value\<close>, or
  whose \<^verbatim>\<open>filter_type\<close> is none of field, field-prefix, field-search and special, fails
  with an \<^verbatim>\<open>AssertionError\<close>; no assignment makes a request; an accepted assignment of
  a specification other than the current filter stores it and clears the cached count,
  and leaves the filter empty or complete; assigning the current filter changes nothing.
\<close>

theorem C8_filter_setter:
  assumes "well_formed_filter (q_filter q)"
  shows "(v \<noteq> Map.empty \<and>
          (v ''filter_type'' = None \<or> v ''filter_field'' = None \<or> v ''filter_value'' = None
           \<or> v ''filter_type'' \<notin> {Some ''field'', Some ''field-prefix'',
                                     Some ''field-search'', Some ''special''})
          \<longrightarrow> set_filter v q = Inl AssertionError)
       \<and> world (apply_mutation a (SetFilter v) st) = world st
       \<and> (set_filter v q = Inr q' \<and> v \<noteq> q_filter q
          \<longrightarrow> q' = q\<lparr>q_filter := v, q_count_cached := JNull\<rparr>)
       \<and> (set_filter v q = Inr q' \<longrightarrow> well_formed_filter (q_filter q'))
       \<and> (v = q_filter q \<longrightarrow> set_filter v q = Inr q)"
proof (intro conjI impI)
  assume bad: "v \<noteq> Map.empty \<and>
          (v ''filter_type'' = None \<or> v ''filter_field'' = None \<or> v ''filter_value'' = None
           \<or> v ''filter_type'' \<notin> {Some ''field'', Some ''field-prefix'',
                                     Some ''field-search'', Some ''special''})"
  then have "\<not> well_formed_filter v"
    by (auto simp add: well_formed_filter_def)
  with assms have "v \<noteq> q_filter q"
    by auto
  with bad show "set_filter v q = Inl AssertionError"
    by (auto simp add: set_filter_def)
next
  show "world (apply_mutation a (SetFilter v) st) = world st"
    by (simp add: assign_filter_def split: sum.splits)
next
  assume "set_filter v q = Inr q' \<and> v \<noteq> q_filter q"
  then show "q' = q\<lparr>q_filter := v, q_count_cached := JNull\<rparr>"
    by (auto simp add: set_filter_def split: if_splits)
next
  assume "set_filter v q = Inr q'"
  then show "well_formed_filter (q_filter q')"
    using assms by (auto simp add: set_filter_def well_formed_filter_def split: if_splits)
next
  assume "v = q_filter q"
  then show "set_filter v q = Inr q"
    by (simp add: set_filter_def)
qed

theorem C8_filter_setter_witness:
  "set_filter [''filter_type'' \<mapsto> ''field''] (Query customers) = Inl AssertionError
   \<and> set_filter [''filter_type'' \<mapsto> ''field'', ''filter_field'' \<mapsto> ''name'',
                 ''filter_value'' \<mapsto> ''Ada'']
       ((Query customers)\<lparr>q_count_cached := JInt 37\<rparr>)
     = Inr ((Query customers)
              \<lparr>q_filter := [''filter_type'' \<mapsto> ''field'', ''filter_field'' \<mapsto> ''name'',
                            ''filter_value'' \<mapsto> ''Ada''],
                q_count_cached := JNull\<rparr>)"
proof -
  let ?bad = "[''filter_type'' \<mapsto> ''field'']"
  let ?good = "[''filter_type'' \<mapsto> ''field'', ''filter_field'' \<mapsto> ''name'',
                ''filter_value'' \<mapsto> ''Ada'']"
  let ?q = "(Query customers)\<lparr>q_count_cached := JInt 37\<rparr>"
  have wf: "well_formed_filter (q_filter (Query customers))"
    and wf': "well_formed_filter (q_filter ?q)"
    by (simp_all add: well_formed_filter_def Query_def)
  have bad: "?bad \<noteq> Map.empty \<and>
          (?bad ''filter_type'' = None \<or> ?bad ''filter_field'' = None
           \<or> ?bad ''filter_value'' = None
           \<or> ?bad ''filter_type'' \<notin> {Some ''field'', Some ''field-prefix'',
                                       Some ''field-search'', Some ''special''})"
    by simp
  have "\<exists>q'. set_filter ?good ?q = Inr q'"
    by (simp add: set_filter_def Query_def)
  then obtain q' where q': "set_filter ?good ?q = Inr q'" ..
  have ne: "?good \<noteq> q_filter ?q"
    by (simp add: Query_def)
  have 1: "set_filter ?bad (Query customers) = Inl AssertionError"
    using C8_filter_setter [OF wf, THEN conjunct1, rule_format, OF bad] .
  have "q' = ?q\<lparr>q_filter := ?good, q_count_cached := JNull\<rparr>"
    using C8_filter_setter [OF wf', THEN conjunct2, THEN conjunct2, THEN conjunct1,
        rule_format, OF conjI [OF q' ne]] .
  with q' 1 show ?thesis by simp
qed

text \<open>
  Claim C7, as stated, fails: after a page of a new query has been fetched, the first
  read of \<^verbatim>\<open>count\<close> since the creation returns the cached 37 and makes no request (the
  query and the world, with its one request for the page, are as they were).
\<close>

theorem C7_counterexample:
  "count (always page37)
     (fst (snd (get_page (always page37) 1 (Query customers) idle)))
     (snd (snd (get_page (always page37) 1 (Query customers) idle)))
   = (Inr (JInt 37),
      fst (snd (get_page (always page37) 1 (Query customers) idle)),
      snd (snd (get_page (always page37) 1 (Query customers) idle)))
   \<and> length (sent (snd (snd (get_page (always page37) 1 (Query customers) idle)))) = 1"
  by (simp add: query_defs object_defs transport_defs classifier_defs demo_defs)

text \<open>
  Claim C7, amended. A new query has no cached count, and an accepted assignment of a
  filter other than the current one leaves none. Reading \<^verbatim>\<open>count\<close> while no count is
  cached makes exactly one request, a GET on the collection with \<^verbatim>\<open>page\<close> 1 and
  \<^verbatim>\<open>page_size\<close> 1 (then the filter and order parameters); when that read returns a
  count other than \<^verbatim>\<open>None\<close>, the count is cached and the filter is unchanged. Reading
  \<^verbatim>\<open>count\<close> while a count is cached returns it with no request and no change.
\<close>

theorem C7_count_requests:
  "q_count_cached (Query c) = JNull
 \<and> (set_filter v q = Inr q' \<and> v \<noteq> q_filter q \<longrightarrow> q_count_cached q' = JNull)
 \<and> (q_count_cached q = JNull \<longrightarrow>
      sent (snd (snd (count srv q w)))
        = sent w @ [get_request (c_api (q_type_class q)) (Lit (c_url_name (q_type_class q)))
                      (Some ([''page_size'' \<mapsto> PInt 1, ''page'' \<mapsto> PInt 1]
                             ++ get_queryargs q))])
 \<and> (q_count_cached q = JNull \<and> count srv q w = (Inr n, q1, w1) \<and> n \<noteq> JNull \<longrightarrow>
      q_count_cached q1 = n \<and> q_filter q1 = q_filter q)
 \<and> (q_count_cached q \<noteq> JNull \<longrightarrow> count srv q w = (Inr (q_count_cached q), q, w))"
proof (intro conjI impI)
  show "q_count_cached (Query c) = JNull"
    by (simp add: Query_def)
next
  assume "set_filter v q = Inr q' \<and> v \<noteq> q_filter q"
  then show "q_count_cached q' = JNull"
    by (auto simp add: set_filter_def split: if_splits)
next
  assume "q_count_cached q = JNull"
  then show "sent (snd (snd (count srv q w)))
        = sent w @ [get_request (c_api (q_type_class q)) (Lit (c_url_name (q_type_class q)))
                      (Some ([''page_size'' \<mapsto> PInt 1, ''page'' \<mapsto> PInt 1]
                             ++ get_queryargs q))]"
    by (auto simp add: count_def make_query_def query_args_def api_get_def call_def
        perform_def split: prod.splits sum.splits)
next
  assume a: "q_count_cached q = JNull \<and> count srv q w = (Inr n, q1, w1) \<and> n \<noteq> JNull"
  then show "q_count_cached q1 = n"
    by (auto simp add: count_def split: prod.splits sum.splits)
  from a show "q_filter q1 = q_filter q"
    by (auto simp add: count_def split: prod.splits sum.splits dest: make_query_filter)
next
  assume "q_count_cached q \<noteq> JNull"
  then show "count srv q w = (Inr (q_count_cached q), q, w)"
    by (simp add: count_def)
qed

theorem C7_count_requests_witness:
  "sent (snd (snd (count (always page37) (Query customers) idle)))
     = [get_request demo_api (Lit ''customer'')
          (Some [''page_size'' \<mapsto> PInt 1, ''page'' \<mapsto> PInt 1])]
   \<and> count (always page37) ((Query customers)\<lparr>q_count_cached := JInt 37\<rparr>)
       (snd (snd (count (always page37) (Query customers) idle)))
     = (Inr (JInt 37), (Query customers)\<lparr>q_count_cached := JInt 37\<rparr>,
        snd (snd (count (always page37) (Query customers) idle)))"
proof -
  let ?q = "(Query customers)\<lparr>q_count_cached := JInt 37\<rparr>"
  have 0: "q_count_cached (Query customers) = JNull"
    by (simp add: Query_def)
  have 1: "q_count_cached ?q \<noteq> JNull"
    by simp
  have e: "[''page_size'' \<mapsto> PInt 1, ''page'' \<mapsto> PInt 1] ++ get_queryargs (Query customers)
             = [''page_size'' \<mapsto> PInt 1, ''page'' \<mapsto> PInt 1]"
    by (simp add: get_queryargs_def Query_def)
  have a: "sent (snd (snd (count (always page37) (Query customers) idle)))
             = sent idle @
               [get_request (c_api (q_type_class (Query customers)))
                  (Lit (c_url_name (q_type_class (Query customers))))
                  (Some ([''page_size'' \<mapsto> PInt 1, ''page'' \<mapsto> PInt 1]
                         ++ get_queryargs (Query customers)))]"
    using C7_count_requests [of customers Map.empty "Query customers" "Query customers"
          "always page37" idle JNull "Query customers" idle,
        THEN conjunct2, THEN conjunct2, THEN conjunct1, rule_format, OF 0] .
  have b: "count (always page37) ?q (snd (snd (count (always page37) (Query customers) idle)))
             = (Inr (q_count_cached ?q), ?q,
                snd (snd (count (always page37) (Query customers) idle)))"
    using C7_count_requests [of customers Map.empty ?q ?q "always page37"
          "snd (snd (count (always page37) (Query customers) idle))" JNull ?q idle,
        THEN conjunct2, THEN conjunct2, THEN conjunct2, THEN conjunct2, rule_format, OF 1] .
  have "sent (snd (snd (count (always page37) (Query customers) idle)))
          = [get_request demo_api (Lit ''customer'')
               (Some [''page_size'' \<mapsto> PInt 1, ''page'' \<mapsto> PInt 1])]"
    unfolding a e by (simp add: Query_def customers_def idle_def)
  moreover have "q_count_cached ?q = JInt 37"
    by simp
  ultimately show ?thesis
    using b by simp
qed

section \<open>Properties of the iteration\<close>

text \<open>
  The methods that the iteration runs on its copy assign \<^verbatim>\<open>_count_cached\<close> and nothing
  else, and a query made in the store is the query that \<^verbatim>\<open>Query\<close> makes.
\<close>

lemma make_query_assigns_count_only:
  "make_query srv n ps q w = (r, q', w') \<Longrightarrow> q' = q\<lparr>q_count_cached := q_count_cached q'\<rparr>"
  by (auto simp add: make_query_def split: prod.splits sum.splits)

lemma count_assigns_count_only:
  "count srv q w = (r, q', w') \<Longrightarrow> q' = q\<lparr>q_count_cached := q_count_cached q'\<rparr>"
  by (auto simp add: count_def split: if_splits prod.splits sum.splits
      dest: make_query_assigns_count_only)

lemma total_pages_assigns_count_only:
  "total_pages srv q w = (r, q', w') \<Longrightarrow> q' = q\<lparr>q_count_cached := q_count_cached q'\<rparr>"
  by (auto simp add: total_pages_def split: if_splits prod.splits sum.splits
      dest: count_assigns_count_only)

lemma get_page_assigns_count_only:
  "get_page srv n q w = (r, q', w') \<Longrightarrow> q' = q\<lparr>q_count_cached := q_count_cached q'\<rparr>"
  by (auto simp add: get_page_def split: if_splits prod.splits sum.splits
      dest: make_query_assigns_count_only)

lemma load_new_query:
  "load (snd (new_query cls st)) (fst (new_query cls st)) = Query cls"
  by (simp add: load_def new_query_def Query_def)

text \<open>
  Assignments through the setters bind new dictionaries to the original query and leave
  the copy's alone: a run whose changes all go through a setter gives the results of the
  run without them.
\<close>

lemma load_agree:
  "agree qry s t \<Longrightarrow> load s qry = load t qry"
  by (auto simp add: agree_def load_def)

lemma on_query_agree:
  assumes "agree qry s t"
  shows "\<exists>r s' t'. on_query qry f s = (r, s') \<and> on_query qry f t = (r, t') \<and> agree qry s' t'
           \<and> r_filter (heap s' qry) = r_filter (heap s qry)
           \<and> r_order (heap s' qry) = r_order (heap s qry)
           \<and> next_dict s' = next_dict s"
  using assms load_agree [OF assms]
  by (auto simp add: on_query_def agree_def split: prod.splits)

lemma fetch_in_step:
  assumes "agree qry s t" and "qry \<noteq> a"
    and "r_filter (heap s qry) < next_dict s" and "r_order (heap s qry) < next_dict s"
  shows "\<exists>r g s' t'. fetch srv qry ps s = (r, g, s') \<and> fetch srv qry ps t = (r, g, t')
           \<and> in_step a g s' t'"
  using assms(1,3,4)
proof (induction ps arbitrary: s t)
  case Nil
  then show ?case by (simp add: in_step_def)
next
  case (Cons p ps)
  obtain r s' t' where s': "on_query qry (get_page srv p) s = (r, s')"
    and t': "on_query qry (get_page srv p) t = (r, t')" and ag: "agree qry s' t'"
    and f: "r_filter (heap s' qry) = r_filter (heap s qry)"
    and o: "r_order (heap s' qry) = r_order (heap s qry)"
    and n: "next_dict s' = next_dict s"
    using on_query_agree [OF Cons.prems(1)] by blast
  have b: "r_filter (heap s' qry) < next_dict s'" "r_order (heap s' qry) < next_dict s'"
    using f o n Cons.prems by simp_all
  show ?case
  proof (cases r)
    case (Inl e)
    then show ?thesis using s' t' by (simp add: in_step_def)
  next
    case (Inr page)
    show ?thesis
    proof (cases page)
      case Nil
      then show ?thesis using Inr s' t' Cons.IH [OF ag b] by simp
    next
      case (Cons ob obs)
      then show ?thesis using Inr s' t' ag b assms(2) by (simp add: in_step_def)
    qed
  qed
qed

lemma gen_next_in_step:
  assumes "in_step a g s t"
  shows "\<exists>r g' s' t'. gen_next srv g s = (r, g', s') \<and> gen_next srv g t = (r, g', t')
           \<and> in_step a g' s' t'"
proof (cases g)
  case (Created x)
  then show ?thesis using assms by (simp add: in_step_def)
next
  case Finished
  then show ?thesis by (simp add: gen_next_def in_step_def)
next
  case (Suspended qry rest page)
  then have ag: "agree qry s t" and ne: "qry \<noteq> a"
    and b: "r_filter (heap s qry) < next_dict s" "r_order (heap s qry) < next_dict s"
    using assms by (simp_all add: in_step_def)
  show ?thesis
  proof (cases page)
    case Nil
    then show ?thesis
      using Suspended fetch_in_step [OF ag ne b, of srv rest] by (simp add: gen_next_def)
  next
    case (Cons ob obs)
    then show ?thesis
      using Suspended ag ne b by (simp add: gen_next_def in_step_def)
  qed
qed

lemma assign_filter_in_step:
  assumes "in_step a g s t"
  shows "in_step a g (assign_filter a v s) t"
  using assms
  by (cases g)
     (auto simp add: in_step_def agree_def assign_filter_def split: sum.splits)

lemma assign_order_in_step:
  assumes "in_step a g s t"
  shows "in_step a g (assign_order a v s) t"
  using assms
  by (cases g)
     (auto simp add: in_step_def agree_def assign_order_def split: sum.splits)

lemma assign_page_size_in_step:
  assumes "in_step a g s t"
  shows "in_step a g (assign_page_size a n s) t"
  using assms
  by (cases g)
     (auto simp add: in_step_def agree_def assign_page_size_def split: sum.splits)

lemma mutation_in_step:
  assumes "in_step a g s t" and "rebinds m"
  shows "in_step a g (apply_mutation a m s) t"
  using assms
  by (cases m)
     (auto simp add: assign_filter_in_step assign_order_in_step assign_page_size_in_step
        split: option.splits)

lemma run_in_step:
  assumes "in_step a g s t" and "list_all by_setter es"
  shows "run srv a es g s = run srv a (filter (\<lambda>e. e = Next) es) g t"
  using assms
proof (induction es arbitrary: g s t)
  case Nil
  then show ?case by simp
next
  case (Cons ev es)
  show ?case
  proof (cases ev)
    case Next
    obtain r g' s' t' where "gen_next srv g s = (r, g', s')"
      and "gen_next srv g t = (r, g', t')" and "in_step a g' s' t'"
      using gen_next_in_step [OF Cons.prems(1)] by blast
    then show ?thesis
      using Next Cons.IH [of g' s' t'] Cons.prems(2) by simp
  next
    case (Mutate m)
    then have "rebinds m" and "list_all by_setter es"
      using Cons.prems(2) by simp_all
    then show ?thesis
      using Mutate Cons.IH [OF mutation_in_step [OF Cons.prems(1)]] by simp
  qed
qed

lemma agree_refl: "agree qry s s"
  by (simp add: agree_def)

lemma first_next_in_step:
  assumes "a < next_addr st"
    and "r_filter (heap st a) < next_dict st" and "r_order (heap st a) < next_dict st"
    and "gen_next srv (Created a) st = (r, g, st')"
  shows "in_step a g st' st'"
proof -
  define qry where "qry = next_addr st"
  define st1 where "st1 = snd (copy_query a st)"
  have c: "copy_query a st = (qry, st1)"
    by (simp add: copy_query_def qry_def st1_def)
  have ne: "qry \<noteq> a"
    using assms(1) by (simp add: qry_def)
  have b1: "r_filter (heap st1 qry) < next_dict st1" "r_order (heap st1 qry) < next_dict st1"
    using assms(2,3) by (simp_all add: st1_def qry_def copy_query_def)
  obtain x st2 where t: "on_query qry (total_pages srv) st1 = (x, st2)"
    by (cases "on_query qry (total_pages srv) st1")
  have b2: "r_filter (heap st2 qry) < next_dict st2" "r_order (heap st2 qry) < next_dict st2"
    using on_query_agree [OF agree_refl, of qry "total_pages srv" st1] t b1 by auto
  show ?thesis
  proof (cases x)
    case (Inl e)
    then show ?thesis
      using assms(4) c t by (auto simp add: gen_next_def in_step_def)
  next
    case (Inr n)
    obtain r' g' s' t' where "fetch srv qry [1..n] st2 = (r', g', s')"
      and "fetch srv qry [1..n] st2 = (r', g', t')" and "in_step a g' s' t'"
      using fetch_in_step [OF agree_refl ne b2] by blast
    then show ?thesis
      using assms(4) c t Inr by (auto simp add: gen_next_def)
  qed
qed

lemma setters_do_not_reach_iteration:
  assumes "a < next_addr st"
    and "r_filter (heap st a) < next_dict st" and "r_order (heap st a) < next_dict st"
    and "list_all by_setter es"
  shows "run srv a (Next # es) (Created a) st
           = run srv a (Next # filter (\<lambda>e. e = Next) es) (Created a) st"
proof -
  obtain r g st' where n: "gen_next srv (Created a) st = (r, g, st')"
    by (cases "gen_next srv (Created a) st")
  have "in_step a g st' st'"
    using assms(1-3) n by (rule first_next_in_step)
  then have "run srv a es g st' = run srv a (filter (\<lambda>e. e = Next) es) g st'"
    using assms(4) by (rule run_in_step)
  then show ?thesis
    using n by simp
qed

lemmas store_defs =
  load_def new_query_def on_query_def copy_query_def gen_next_def assign_filter_def
  assign_order_def assign_page_size_def set_filter_def set_order_def set_page_size_def
  no_objects_def one_query_def echo_def seen_def map_add_def

lemma pages2: "[1..2] = [1, 2 :: int]"
  by (simp add: upto.simps)

lemma one_query_allocated:
  "0 < next_addr one_query \<and> r_filter (heap one_query 0) < next_dict one_query
   \<and> r_order (heap one_query 0) < next_dict one_query"
  by (simp add: store_defs)

lemma setters_do_not_reach_iteration_example:
  "run echo 0
     [Next, Mutate (MakeFilter (Some ''field'') (Some ''name'') (Some ''B'')),
      Mutate (SetPageSize 5),
      Mutate (SetOrder [''order_field'' \<mapsto> ''name'', ''order_direction'' \<mapsto> ''asc'']),
      Next, Next]
     (Created 0) one_query
   = [Yield (seen ''A'' 1), Yield (seen ''A'' 1), StopIteration]"
proof -
  let ?es = "[Mutate (MakeFilter (Some ''field'') (Some ''name'') (Some ''B'')),
      Mutate (SetPageSize 5),
      Mutate (SetOrder [''order_field'' \<mapsto> ''name'', ''order_direction'' \<mapsto> ''asc'']),
      Next, Next]"
  have "list_all by_setter ?es"
    by simp
  then have "run echo 0 (Next # ?es) (Created 0) one_query
          = run echo 0 (Next # filter (\<lambda>e. e = Next) ?es) (Created 0) one_query"
    using one_query_allocated by (intro setters_do_not_reach_iteration) simp_all
  also have "filter (\<lambda>e. e = Next) ?es = [Next, Next]"
    by simp
  also have "run echo 0 [Next, Next, Next] (Created 0) one_query
          = [Yield (seen ''A'' 1), Yield (seen ''A'' 1), StopIteration]"
    by (simp add: store_defs pages2 query_defs object_defs transport_defs classifier_defs
        demo_defs)
  finally show ?thesis .
qed

text \<open>
  Claim C3. The iteration should be unaffected by every change of the original query's
  filter, order or page size made after it has begun. It is not: the copy that
  \<^verbatim>\<open>iter_all\<close> makes is shallow, so it shares the filter dictionary with the original.
  Here the query has page size 1 and the filter value A, and the server reports two
  objects and records the filter value of each request in the object it returns. After
  the first object, \<^verbatim>\<open>q.filter['filter_value'] = 'B'\<close> on the original makes the
  iteration fetch its second page with the filter value B, where the run without the
  change fetches it with A.
\<close>

theorem C3_in_place_filter_change_reaches_iteration:
  "run echo 0 [Next, Mutate (FilterSetItem ''filter_value'' ''B''), Next, Next]
     (Created 0) one_query
   = [Yield (seen ''A'' 1), Yield (seen ''B'' 1), StopIteration]
   \<and> run echo 0 [Next, Next, Next] (Created 0) one_query
     = [Yield (seen ''A'' 1), Yield (seen ''A'' 1), StopIteration]
   \<and> seen ''A'' 1 \<noteq> seen ''B'' 1"
  by (simp add: store_defs pages2 query_defs object_defs transport_defs classifier_defs
      demo_defs)

end
